theory Spec2Isabelle
  imports Complex_Main
begin

section \<open>Byte strings (package strings)\<close>

text \<open>
  Go strings are byte sequences; they are modelled as \<open>string\<close> (a list of 8-bit
  characters). The functions below are the ones of package \<open>strings\<close> that
  \<open>main.go\<close> calls.
\<close>

definition HasPrefix :: "string \<Rightarrow> string \<Rightarrow> bool" where
  "HasPrefix s p = (take (length p) s = p)"

definition TrimPrefix :: "string \<Rightarrow> string \<Rightarrow> string" where
  "TrimPrefix s p = (if HasPrefix s p then drop (length p) s else s)"

definition HasSuffix :: "string \<Rightarrow> string \<Rightarrow> bool" where
  "HasSuffix s p = (length p \<le> length s \<and> drop (length s - length p) s = p)"

definition TrimSuffix :: "string \<Rightarrow> string \<Rightarrow> string" where
  "TrimSuffix s p = (if HasSuffix s p then take (length s - length p) s else s)"

text \<open>Letter case of one byte; bytes outside \<open>A-Z\<close> (\<open>a-z\<close>) are left alone.\<close>

definition lower_byte :: "char \<Rightarrow> char" where
  "lower_byte c = (let n = (of_char c :: nat) in
     if 65 \<le> n \<and> n \<le> 90 then char_of (n + 32) else c)"

definition upper_byte :: "char \<Rightarrow> char" where
  "upper_byte c = (let n = (of_char c :: nat) in
     if 97 \<le> n \<and> n \<le> 122 then char_of (n - 32) else c)"

text \<open>
  \<open>strings.ToLower\<close> on the ASCII range. HTTP header names are ASCII tokens, the only
  strings the program lower-cases besides JSON string values compared with ASCII words.
\<close>

definition ToLower :: "string \<Rightarrow> string" where
  "ToLower s = map lower_byte s"

definition newline :: char where
  "newline = CHR 0x0A"

definition carriage_return :: char where
  "carriage_return = CHR 0x0D"

section \<open>HTTP headers (net/http, net/textproto)\<close>

text \<open>
  \<open>http.Header\<close> is \<open>map[string][]string\<close>; its methods address a key by its
  canonical form, \<open>textproto.CanonicalMIMEHeaderKey\<close>. A key made of header-name
  bytes only (letters, digits and the punctuation of an HTTP token) gets its first
  letter and every letter after a dash in upper case and the others in lower case. A key
  that contains a space or any other byte is returned unchanged.
\<close>

definition validHeaderFieldByte :: "char \<Rightarrow> bool" where
  "validHeaderFieldByte c =
     (let n = (of_char c :: nat)
      in (48 \<le> n \<and> n \<le> 57) \<or> (65 \<le> n \<and> n \<le> 90) \<or> (97 \<le> n \<and> n \<le> 122)
         \<or> n \<in> set [33, 35, 36, 37, 38, 39, 42, 43, 45, 46, 94, 95, 96, 124, 126])"

fun canonical_from :: "bool \<Rightarrow> string \<Rightarrow> string" where
  "canonical_from upper [] = []"
| "canonical_from upper (c # cs) =
     (let c' = (if upper then upper_byte c else lower_byte c)
      in c' # canonical_from (c' = CHR ''-'') cs)"

definition CanonicalHeaderKey :: "string \<Rightarrow> string" where
  "CanonicalHeaderKey key =
     (if list_all validHeaderFieldByte key then canonical_from True key else key)"

type_synonym Header = "string \<rightharpoonup> string list"

text \<open>
  \<open>Header.Get\<close>: the first value stored under the canonical key, and the empty string
  when the key is missing or has no value. A header sent with an empty value therefore
  reads exactly like a header that was not sent.
\<close>

definition Header_Get :: "Header \<Rightarrow> string \<Rightarrow> string" where
  "Header_Get h key =
     (case h (CanonicalHeaderKey key) of
        None \<Rightarrow> []
      | Some [] \<Rightarrow> []
      | Some (v # _) \<Rightarrow> v)"

definition Header_Set :: "Header \<Rightarrow> string \<Rightarrow> string \<Rightarrow> Header" where
  "Header_Set h key v = h(CanonicalHeaderKey key \<mapsto> [v])"

definition Header_Add :: "Header \<Rightarrow> string \<Rightarrow> string \<Rightarrow> Header" where
  "Header_Add h key v =
     (let k = CanonicalHeaderKey key
      in h(k \<mapsto> (case h k of None \<Rightarrow> [v] | Some vs \<Rightarrow> vs @ [v])))"

definition Header_Del :: "Header \<Rightarrow> string \<Rightarrow> Header" where
  "Header_Del h key = h(CanonicalHeaderKey key := None)"

section \<open>The client side: http.ResponseWriter\<close>

text \<open>
  What a handler does to its \<open>ResponseWriter\<close> is recorded in the writer itself:
  \<^item> \<open>w_Header\<close> is the header map returned by \<open>w.Header()\<close>;
  \<^item> \<open>w_sent\<close> is the status line once written, with the header map as it was at that
    moment (later changes of the map have no effect on the response);
  \<^item> \<open>w_out\<close> lists the body writes and the flushes, oldest first;
  \<^item> \<open>w_flusher\<close> says whether the writer implements \<open>http.Flusher\<close>;
  \<^item> \<open>w_fail_at = Some n\<close> is a writer that takes \<open>n\<close> body writes and returns an
    error from every later \<open>Write\<close> (the client has gone, or the server refuses the body);
  \<^item> \<open>w_interim\<close> lists the informational responses sent before the status line;
  \<^item> \<open>w_panicked\<close> says that a call on the writer panicked, which ends the handler: the
    server closes the connection and nothing that was not yet sent reaches the client.
\<close>

datatype event = Write string | Flush

record ResponseWriter =
  w_Header :: Header
  w_sent :: "(nat \<times> Header) option"
  w_out :: "event list"
  w_flusher :: bool
  w_fail_at :: "nat option"
  w_interim :: "(nat \<times> Header) list"
  w_panicked :: bool

text \<open>
  \<open>w.WriteHeader(code)\<close> of net/http (Go 1.19 and later). Once the status line is
  written a further call is only logged. Otherwise a code outside 100..999 panics
  (\<open>checkWriteHeaderCode\<close>); an informational code (1xx other than 101) is sent at once
  with the headers, without \<open>Content-Length\<close> and \<open>Transfer-Encoding\<close>, and leaves the
  status line unwritten; any other code is the status line.
\<close>

definition WriteHeader_panics :: "ResponseWriter \<Rightarrow> nat \<Rightarrow> bool" where
  "WriteHeader_panics w code = (w_sent w = None \<and> (code < 100 \<or> 999 < code))"

definition informational :: "nat \<Rightarrow> bool" where
  "informational code = (100 \<le> code \<and> code \<le> 199 \<and> code \<noteq> 101)"

definition WriteHeader :: "ResponseWriter \<Rightarrow> nat \<Rightarrow> ResponseWriter" where
  "WriteHeader w code =
     (if w_sent w \<noteq> None then w
      else if code < 100 \<or> 999 < code then w\<lparr>w_panicked := True\<rparr>
      else if informational code then
        w\<lparr>w_interim := w_interim w
               @ [(code, (w_Header w)(''Content-Length'' := None, ''Transfer-Encoding'' := None))]\<rparr>
      else w\<lparr>w_sent := Some (code, w_Header w)\<rparr>)"

definition is_Write :: "event \<Rightarrow> bool" where
  "is_Write e = (case e of Write _ \<Rightarrow> True | Flush \<Rightarrow> False)"

text \<open>\<open>w.Write\<close>: \<open>None\<close> is the error return. A first write sends status 200 if none was sent.\<close>

definition rw_Write :: "ResponseWriter \<Rightarrow> string \<Rightarrow> ResponseWriter option" where
  "rw_Write w bs =
     (case w_fail_at w of
        None \<Rightarrow> Some ((WriteHeader w 200)\<lparr>w_out := w_out w @ [Write bs]\<rparr>)
      | Some n \<Rightarrow>
          if n \<le> length (filter is_Write (w_out w)) then None
          else Some ((WriteHeader w 200)\<lparr>w_out := w_out w @ [Write bs]\<rparr>))"

definition rw_Flush :: "ResponseWriter \<Rightarrow> ResponseWriter" where
  "rw_Flush w = w\<lparr>w_out := w_out w @ [Flush]\<rparr>"

text \<open>
  \<open>http.Error(w, msg, code)\<close>: plain-text content type, the status, then the message and
  a newline (\<open>fmt.Fprintln\<close>, whose error is dropped). A panic of \<open>WriteHeader\<close> ends it.
\<close>

definition StatusBadRequest :: nat where "StatusBadRequest = 400"
definition StatusUnauthorized :: nat where "StatusUnauthorized = 401"
definition StatusInternalServerError :: nat where "StatusInternalServerError = 500"
definition StatusBadGateway :: nat where "StatusBadGateway = 502"

definition http_Error :: "ResponseWriter \<Rightarrow> string \<Rightarrow> nat \<Rightarrow> ResponseWriter" where
  "http_Error w msg code =
     (let h0 = Header_Del (w_Header w) ''Content-Length'';
          h1 = Header_Set h0 ''Content-Type'' ''text/plain; charset=utf-8'';
          h2 = Header_Set h1 ''X-Content-Type-Options'' ''nosniff'';
          w0 = w\<lparr>w_Header := h2\<rparr>;
          w1 = WriteHeader w0 code
      in if WriteHeader_panics w0 code then w1
         else case rw_Write w1 (msg @ [newline]) of None \<Rightarrow> w1 | Some w2 \<Rightarrow> w2)"

section \<open>Requests and the authenticator\<close>

text \<open>An inbound request: its headers, \<open>r.URL.Path\<close>, and the bytes \<open>io.ReadAll(r.Body)\<close>
  returns (\<open>None\<close> when reading fails).\<close>

record Request =
  r_Header :: Header
  r_Path :: string
  r_Body :: "string option"

text \<open>A request sent upstream; \<open>o_Timeout\<close> is the client's timeout in seconds, 0 for none.\<close>

record Outbound =
  o_Method :: string
  o_URL :: string
  o_Header :: Header
  o_Body :: string
  o_Timeout :: nat

text \<open>A handler returns the writer as it leaves it and the upstream calls it made.\<close>

type_synonym Handler = "ResponseWriter \<Rightarrow> Request \<Rightarrow> ResponseWriter \<times> Outbound list"

text \<open>\<open>authMiddleware\<close> (main.go, lines 67-92); \<open>authToken\<close> is the package variable.\<close>

definition authMiddleware :: "string \<Rightarrow> Handler \<Rightarrow> Handler" where
  "authMiddleware authToken next w r =
     (if authToken = [] then next w r
      else
        let authHeader = Header_Get (r_Header r) ''Authorization'';
            token = TrimPrefix authHeader ''Bearer '';
            (authHeader, token) =
              (if authHeader = [] then
                 (Header_Get (r_Header r) ''x-api-key'', Header_Get (r_Header r) ''x-api-key'')
               else (authHeader, token))
        in if authHeader = [] then
             (http_Error w ''Authorization or x-api-key header required'' StatusUnauthorized, [])
           else if token \<noteq> authToken then
             (http_Error w ''Invalid token'' StatusUnauthorized, [])
           else next w r)"

section \<open>The routing table\<close>

record LitellmParams =
  Model :: string
  APIBase :: string
  APIKey :: string

record ModelConfig =
  ModelName :: string
  LitellmParams :: LitellmParams

text \<open>\<open>isAnthropicModel\<close> (main.go, lines 63-65).\<close>

definition isAnthropicModel :: "string \<Rightarrow> bool" where
  "isAnthropicModel modelName = HasPrefix modelName ''anthropic/''"

text \<open>The function literal applied to \<open>config.LitellmParams.Model\<close> (lines 118-124).\<close>

definition upstream_model_name :: "string \<Rightarrow> string" where
  "upstream_model_name m =
     (if isAnthropicModel m then TrimPrefix m ''anthropic/''
      else TrimPrefix m ''openai/'')"

section \<open>The JSON libraries (github.com/tidwall/gjson and sjson)\<close>

text \<open>
  The program reads two fields of the body with \<open>gjson.GetBytes\<close> and patches one with
  \<open>sjson.SetBytes\<close>. Both are libraries outside this repository. Their scanner of the
  JSON text is not modelled: it is the parameter \<open>gjson_Get\<close> of the environment below,
  which returns a \<open>gjson.Result\<close>. What the libraries do with a \<open>Result\<close> is modelled as
  their code does it.

  \<open>gjson.Result\<close>: the JSON type of the value found, its raw text, the unescaped text of
  a string, the value of a number (\<open>float64\<close> in Go) and the offset of the raw text in
  the document. A field that is not found gives the zero \<open>Result\<close>, of type \<open>Null\<close>.
\<close>

datatype gjson_Type = JNull | JFalse | JNumber | JString | JTrue | JJSON

record Result =
  res_Type :: gjson_Type
  res_Raw :: string
  res_Str :: string
  res_Num :: real
  res_Index :: nat

definition zero_Result :: Result where
  "zero_Result = \<lparr>res_Type = JNull, res_Raw = [], res_Str = [], res_Num = 0, res_Index = 0\<rparr>"

definition Result_Exists :: "Result \<Rightarrow> bool" where
  "Result_Exists t = (res_Type t \<noteq> JNull \<or> res_Raw t \<noteq> [])"

definition is_digit :: "char \<Rightarrow> bool" where
  "is_digit c = (let n = (of_char c :: nat) in 48 \<le> n \<and> n \<le> 57)"

text \<open>\<open>strconv.ParseBool\<close>: the accepted spellings; \<open>None\<close> is the error return.\<close>

definition ParseBool :: "string \<Rightarrow> bool option" where
  "ParseBool s =
     (if s \<in> set [''1'', ''t'', ''T'', ''TRUE'', ''true'', ''True''] then Some True
      else if s \<in> set [''0'', ''f'', ''F'', ''FALSE'', ''false'', ''False''] then Some False
      else None)"

text \<open>\<open>Result.Bool\<close>: strings and numbers are coerced, not only JSON \<open>true\<close> is true.\<close>

definition Result_Bool :: "Result \<Rightarrow> bool" where
  "Result_Bool t =
     (case res_Type t of
        JTrue \<Rightarrow> True
      | JString \<Rightarrow> (case ParseBool (ToLower (res_Str t)) of Some b \<Rightarrow> b | None \<Rightarrow> False)
      | JNumber \<Rightarrow> res_Num t \<noteq> 0
      | _ \<Rightarrow> False)"

text \<open>
  The environment of a request: the library functions that are not modelled further and
  the network.
  \<^item> \<open>gjson_Get body path\<close>: the lookup of \<open>gjson.Get\<close> and \<open>gjson.GetBytes\<close>;
  \<^item> \<open>FormatFloat\<close>: \<open>strconv.FormatFloat(x, 'f', -1, 64)\<close>;
  \<^item> \<open>json_Marshal\<close>: \<open>encoding/json\<close> on a string that needs escaping;
  \<^item> \<open>sjson_insert body path value\<close>: what \<open>sjson\<close> returns when the path has no
    indexed value in the body and the field must be inserted (\<open>None\<close> is an error);
  \<^item> \<open>NewRequest_ok url\<close>: whether \<open>http.NewRequest\<close> accepts the URL;
  \<^item> \<open>client_Do req\<close>: the upstream's answer, \<open>None\<close> when the call fails.
\<close>

record Response =
  resp_StatusCode :: nat
  resp_Header :: "(string \<times> string list) list"
  resp_Body :: string

record Env =
  gjson_Get :: "string \<Rightarrow> string \<Rightarrow> Result"
  FormatFloat :: "real \<Rightarrow> string"
  json_Marshal :: "string \<Rightarrow> string"
  sjson_insert :: "string \<Rightarrow> string \<Rightarrow> string \<Rightarrow> string option"
  NewRequest_ok :: "string \<Rightarrow> bool"
  client_Do :: "Outbound \<Rightarrow> Response option"

text \<open>\<open>Result.String\<close>: a number made of digits only is printed as written.\<close>

definition Result_String :: "Env \<Rightarrow> Result \<Rightarrow> string" where
  "Result_String E t =
     (case res_Type t of
        JNull \<Rightarrow> []
      | JFalse \<Rightarrow> ''false''
      | JNumber \<Rightarrow>
          (if res_Raw t = [] then FormatFloat E (res_Num t)
           else
             let ds = (if hd (res_Raw t) = CHR ''-'' then tl (res_Raw t) else res_Raw t)
             in if list_all is_digit ds then res_Raw t else FormatFloat E (res_Num t))
      | JString \<Rightarrow> res_Str t
      | JTrue \<Rightarrow> ''true''
      | JJSON \<Rightarrow> res_Raw t)"

text \<open>
  \<open>sjson.SetBytes(json, path, value)\<close> with a string value and a one-part path. The value
  is written as a JSON string (\<open>appendStringify\<close>). When \<open>gjson\<close> finds the path at a
  known offset, the raw text there is cut out and the new value put in its place; every
  byte before and after is copied.
\<close>

definition mustMarshalString :: "string \<Rightarrow> bool" where
  "mustMarshalString s =
     list_ex (\<lambda>c. (of_char c :: nat) < 32 \<or> (of_char c :: nat) > 127
                  \<or> c = CHR 0x22 \<or> c = CHR 0x5C) s"

definition appendStringify :: "Env \<Rightarrow> string \<Rightarrow> string" where
  "appendStringify E s =
     (if mustMarshalString s then json_Marshal E s else [CHR 0x22] @ s @ [CHR 0x22])"

definition sjson_SetBytes :: "Env \<Rightarrow> string \<Rightarrow> string \<Rightarrow> string \<Rightarrow> string option" where
  "sjson_SetBytes E json path v =
     (let res = gjson_Get E json path
      in if 0 < res_Index res then
           Some (take (res_Index res) json @ appendStringify E v
                 @ drop (res_Index res + length (res_Raw res)) json)
         else sjson_insert E json path v)"

section \<open>The streaming scanner (bufio)\<close>

text \<open>
  \<open>bufio.Scanner\<close> with \<open>ScanLines\<close> and the buffer of line 196: a line is the bytes up
  to the next newline, or up to the end of the data for a last, unterminated line; one
  trailing carriage return is dropped. A line that does not fit the largest buffer
  (\<open>10<<20\<close> bytes) ends the scan with \<open>ErrTooLong\<close>, which the program only logs.
  The data is what was read from the upstream body before its end or its first read
  error.
\<close>

definition maxTokenSize :: nat where
  "maxTokenSize = 10 * 2 ^ 20"

definition dropCR :: "string \<Rightarrow> string" where
  "dropCR d = (if d \<noteq> [] \<and> last d = carriage_return then butlast d else d)"

function Scanner_lines :: "string \<Rightarrow> string list" where
  "Scanner_lines d =
     (if d = [] then []
      else
        let raw = takeWhile (\<lambda>c. c \<noteq> newline) d
        in if maxTokenSize \<le> length raw then []
           else dropCR raw # Scanner_lines (drop (Suc (length raw)) d))"
  by pat_completeness auto
termination
  by (relation "measure length") auto

declare Scanner_lines.simps [simp del]

section \<open>The handler\<close>

text \<open>Lines 167-179: the loop over \<open>resp.Header\<close>, in the order the map yields its keys.\<close>

fun copy_headers :: "bool \<Rightarrow> (string \<times> string list) list \<Rightarrow> Header \<Rightarrow> Header" where
  "copy_headers isStream [] h = h"
| "copy_headers isStream ((key, vs) # rest) h =
     (if isStream \<and> ToLower key = ''content-length'' then copy_headers isStream rest h
      else if isStream \<and> ToLower key = ''transfer-encoding'' then copy_headers isStream rest h
      else copy_headers isStream rest (foldl (\<lambda>h' v. Header_Add h' key v) h vs))"

text \<open>Lines 199-209: one write and one flush for each line; a failed write returns.\<close>

fun stream_lines :: "ResponseWriter \<Rightarrow> string list \<Rightarrow> ResponseWriter" where
  "stream_lines w [] = w"
| "stream_lines w (line # rest) =
     (case rw_Write w (line @ [newline]) of
        None \<Rightarrow> w
      | Some w' \<Rightarrow> stream_lines (rw_Flush w') rest)"

text \<open>
  Lines 165-221: the relay of the upstream response. \<open>WriteHeader\<close> at line 184 gets the
  upstream status unchecked, so a status it refuses ends the handler there. \<open>io.Copy\<close>
  hands the body to the writer in order; it is recorded as one write of the whole body.
\<close>

definition relay :: "ResponseWriter \<Rightarrow> Response \<Rightarrow> bool \<Rightarrow> ResponseWriter" where
  "relay w resp isStream =
     (let w1 = w\<lparr>w_Header := copy_headers isStream (resp_Header resp) (w_Header w)\<rparr>;
          w2 = WriteHeader w1 (resp_StatusCode resp)
      in if WriteHeader_panics w1 (resp_StatusCode resp) then w2
         else if isStream then
           (if \<not> w_flusher w2 then
              http_Error w2 ''Streaming not supported'' StatusInternalServerError
            else stream_lines w2 (Scanner_lines (resp_Body resp)))
         else if resp_Body resp = [] then w2
         else (case rw_Write w2 (resp_Body resp) of None \<Rightarrow> w2 | Some w3 \<Rightarrow> w3))"

text \<open>Lines 101-116: the model name and its route; \<open>Inl\<close> is the error reply.\<close>

definition route_for ::
  "Env \<Rightarrow> (string \<rightharpoonup> ModelConfig) \<Rightarrow> string \<Rightarrow> (string \<times> nat) + ModelConfig" where
  "route_for E modelConfigs body =
     (let modelName = Result_String E (gjson_Get E body ''model'')
      in if modelName = [] then Inl (''Model field is required'', StatusBadRequest)
         else case modelConfigs modelName of
                None \<Rightarrow> Inl (''Model not found'', StatusBadRequest)
              | Some config \<Rightarrow>
                  if \<not> isAnthropicModel (Model (LitellmParams config)) then
                    Inl (''OpenAI models should use /chat/completions endpoint'',
                         StatusBadRequest)
                  else Inr config)"

text \<open>Lines 118-157: the rewritten body, the stream flag and the outbound request.\<close>

definition build_request ::
  "Env \<Rightarrow> ModelConfig \<Rightarrow> string \<Rightarrow> string \<Rightarrow> (string \<times> nat) + (Outbound \<times> bool)" where
  "build_request E config path body =
     (case sjson_SetBytes E body ''model'' (upstream_model_name (Model (LitellmParams config))) of
        None \<Rightarrow> Inl (''Error modifying request'', StatusInternalServerError)
      | Some modifiedBody \<Rightarrow>
          let upstreamURL = TrimSuffix (APIBase (LitellmParams config)) ''/'' @ path;
              isStream = Result_Bool (gjson_Get E body ''stream'');
              timeout = (if isStream then 0 else 30)
          in if \<not> NewRequest_ok E upstreamURL then
               Inl (''Error creating request'', StatusInternalServerError)
             else
               let h1 = Header_Set Map.empty ''Content-Type'' ''application/json'';
                   h2 = Header_Set h1 ''User-Agent'' ''llmp-proxy/1.0'';
                   h3 = (if APIKey (LitellmParams config) \<noteq> [] then
                           Header_Set h2 ''Authorization'' (''Bearer '' @ APIKey (LitellmParams config))
                         else h2)
               in Inr (\<lparr>o_Method = ''POST'', o_URL = upstreamURL, o_Header = h3,
                         o_Body = modifiedBody, o_Timeout = timeout\<rparr>, isStream))"

text \<open>\<open>proxyToUpstream\<close> (main.go, lines 94-222); \<open>modelConfigs\<close> is the package variable.\<close>

definition proxyToUpstream :: "Env \<Rightarrow> (string \<rightharpoonup> ModelConfig) \<Rightarrow> Handler" where
  "proxyToUpstream E modelConfigs w r =
     (case r_Body r of
        None \<Rightarrow> (http_Error w ''Error reading request body'' StatusBadRequest, [])
      | Some body \<Rightarrow>
          (case route_for E modelConfigs body of
             Inl (msg, code) \<Rightarrow> (http_Error w msg code, [])
           | Inr config \<Rightarrow>
               (case build_request E config (r_Path r) body of
                  Inl (msg, code) \<Rightarrow> (http_Error w msg code, [])
                | Inr (req, isStream) \<Rightarrow>
                    (case client_Do E req of
                       None \<Rightarrow>
                         (http_Error w ''Error forwarding request'' StatusBadGateway, [req])
                     | Some resp \<Rightarrow> (relay w resp isStream, [req])))))"

section \<open>Notions of the specification and sample data\<close>

text \<open>
  What \<open>gjson\<close> documents about a value it found in the document: \<open>Index\<close> is the
  position of \<open>Raw\<close> in the JSON text, after the opening brace.
\<close>

definition gjson_locates :: "Env \<Rightarrow> string \<Rightarrow> string \<Rightarrow> bool" where
  "gjson_locates E json path =
     (let t = gjson_Get E json path
      in Result_Exists t \<longrightarrow>
           0 < res_Index t \<and> take (length (res_Raw t)) (drop (res_Index t) json) = res_Raw t)"

text \<open>
  The status codes \<open>WriteHeader\<close> takes without a panic, and those among them it writes
  as the status line. Go's client never returns an informational status: it reads on to
  the response that follows.
\<close>

definition valid_status :: "nat \<Rightarrow> bool" where
  "valid_status code = (100 \<le> code \<and> code \<le> 999)"

definition final_status :: "nat \<Rightarrow> bool" where
  "final_status code = (code = 101 \<or> (200 \<le> code \<and> code \<le> 999))"

text \<open>The headers of a response as a map; a key without values is no header.\<close>

definition header_values :: "(string \<times> string list) list \<Rightarrow> Header" where
  "header_values hs k = (case map_of hs k of Some (v # vs) \<Rightarrow> Some (v # vs) | _ \<Rightarrow> None)"

definition framing_header :: "string \<Rightarrow> bool" where
  "framing_header k = (ToLower k = ''content-length'' \<or> ToLower k = ''transfer-encoding'')"

text \<open>
  What copying the upstream headers means: under each canonical name, the values of the
  upstream headers with that name, in the order the map yields them; for a streaming
  request the headers named \<open>Content-Length\<close> or \<open>Transfer-Encoding\<close> in any letter
  case are left out.
\<close>

definition copied_headers :: "bool \<Rightarrow> (string \<times> string list) list \<Rightarrow> Header" where
  "copied_headers isStream hs k =
     (case concat (map snd (filter (\<lambda>(key, vs). CanonicalHeaderKey key = k
                                      \<and> \<not> (isStream \<and> framing_header key)) hs)) of
        [] \<Rightarrow> None
      | v # vs \<Rightarrow> Some (v # vs))"

text \<open>A body made of the lines \<open>ls\<close>, each followed by a newline.\<close>

definition newline_delimited :: "string list \<Rightarrow> string" where
  "newline_delimited ls = concat (map (\<lambda>l. l @ [newline]) ls)"

text \<open>Sample data: a writer nothing was written to, a handler, requests, a route.\<close>

definition fresh_writer :: ResponseWriter where
  "fresh_writer = \<lparr>w_Header = Map.empty, w_sent = None, w_out = [], w_flusher = True,
                    w_fail_at = None, w_interim = [], w_panicked = False\<rparr>"

definition ok_handler :: Handler where
  "ok_handler w r = (rw_Flush w, [])"

definition req_with :: "Header \<Rightarrow> Request" where
  "req_with h = \<lparr>r_Header = h, r_Path = ''/v1/messages'', r_Body = Some []\<rparr>"

text \<open>
  Sample bodies, with what \<open>gjson\<close> returns for the two paths the program reads: the type
  of the value, its raw text and the offset of that text in the body.
\<close>

definition stream_body :: string where
  \<open>stream_body = ''{"model":"claude-x","stream":true}''\<close>

definition string_body :: string where
  \<open>string_body = ''{"model":"claude-x","stream":"true"}''\<close>

definition plain_body :: string where
  \<open>plain_body = ''{"model":"claude-x","max_tokens":5}''\<close>

definition gpt_body :: string where
  \<open>gpt_body = ''{"model":"gpt-4o","max_tokens":5}''\<close>

definition empty_model_body :: string where
  \<open>empty_model_body = ''{"model":"","max_tokens":5}''\<close>

definition no_model_body :: string where
  \<open>no_model_body = ''{"max_tokens":5}''\<close>

definition str_result :: "string \<Rightarrow> nat \<Rightarrow> Result" where
  "str_result s i = \<lparr>res_Type = JString, res_Raw = [CHR 0x22] @ s @ [CHR 0x22], res_Str = s,
                     res_Num = 0, res_Index = i\<rparr>"

definition true_result :: "nat \<Rightarrow> Result" where
  "true_result i = \<lparr>res_Type = JTrue, res_Raw = ''true'', res_Str = [], res_Num = 0,
                    res_Index = i\<rparr>"

definition sample_lookups :: "((string \<times> string) \<times> Result) list" where
  "sample_lookups =
     [((stream_body, ''model''), str_result ''claude-x'' 9),
      ((stream_body, ''stream''), true_result 29),
      ((string_body, ''model''), str_result ''claude-x'' 9),
      ((string_body, ''stream''), str_result ''true'' 29),
      ((plain_body, ''model''), str_result ''claude-x'' 9),
      ((gpt_body, ''model''), str_result ''gpt-4o'' 9),
      ((empty_model_body, ''model''), str_result [] 9)]"

definition sample_gjson :: "string \<Rightarrow> string \<Rightarrow> Result" where
  "sample_gjson json path =
     (case map_of sample_lookups (json, path) of None \<Rightarrow> zero_Result | Some t \<Rightarrow> t)"

text \<open>A sample environment around an upstream \<open>up\<close>, a routing table and a response.\<close>

definition sample_env :: "(Outbound \<Rightarrow> Response option) \<Rightarrow> Env" where
  "sample_env up =
     \<lparr>gjson_Get = sample_gjson, FormatFloat = (\<lambda>x. []), json_Marshal = (\<lambda>s. s),
      sjson_insert = (\<lambda>json path v. None), NewRequest_ok = (\<lambda>url. True), client_Do = up\<rparr>"

definition claude_route :: ModelConfig where
  "claude_route =
     \<lparr>ModelName = ''claude-x'',
      LitellmParams = \<lparr>Model = ''anthropic/claude-3-opus'',
                       APIBase = ''https://api.example.com/'', APIKey = ''up-key''\<rparr>\<rparr>"

definition gpt_route :: ModelConfig where
  "gpt_route =
     \<lparr>ModelName = ''gpt-4o'',
      LitellmParams = \<lparr>Model = ''openai/gpt-4o'',
                       APIBase = ''https://api.example.org'', APIKey = []\<rparr>\<rparr>"

definition sample_routes :: "string \<rightharpoonup> ModelConfig" where
  "sample_routes = [''claude-x'' \<mapsto> claude_route, ''gpt-4o'' \<mapsto> gpt_route]"

definition body_request :: "string \<Rightarrow> Request" where
  "body_request b = \<lparr>r_Header = Map.empty, r_Path = ''/v1/messages'', r_Body = Some b\<rparr>"

definition sample_response :: "string \<Rightarrow> Response" where
  "sample_response b =
     \<lparr>resp_StatusCode = 200,
      resp_Header = [(''Content-Type'', [''text/event-stream'']),
                     (''Content-Length'', [''24'']),
                     (''Transfer-Encoding'', [''chunked''])],
      resp_Body = b\<rparr>"

definition no_upstream :: "Outbound \<Rightarrow> Response option" where
  "no_upstream req = None"

text \<open>The stream flag of the request that \<open>build_request\<close> returns.\<close>

definition stream_flag :: "Env \<Rightarrow> ModelConfig \<Rightarrow> string \<Rightarrow> string \<Rightarrow> bool option" where
  "stream_flag E config path body =
     (case build_request E config path body of
        Inl _ \<Rightarrow> None
      | Inr (req, isStream) \<Rightarrow> Some isStream)"

text \<open>Upstreams that answer every call with one response; a line too long for the scanner.\<close>

definition sample_upstream :: "string \<Rightarrow> Outbound \<Rightarrow> Response option" where
  "sample_upstream b req = Some (sample_response b)"

definition long_line :: string where
  "long_line = replicate maxTokenSize (CHR ''a'')"

definition long_line_upstream :: "Outbound \<Rightarrow> Response option" where
  "long_line_upstream req = Some (sample_response (newline_delimited [long_line]))"

definition three_lines :: "string list" where
  "three_lines = [''data: a'', ''data: b'' @ [carriage_return], ''data: c'']"

text \<open>
  An upstream that answers with status 099, which Go's client accepts; a response whose
  header names are not in canonical form; a writer without \<open>http.Flusher\<close>; a writer
  whose client is gone after one write; a request with an empty \<open>Authorization\<close> value.
\<close>

definition bad_status_upstream :: "Outbound \<Rightarrow> Response option" where
  "bad_status_upstream req =
     Some ((sample_response (newline_delimited three_lines))\<lparr>resp_StatusCode := 99\<rparr>)"

definition mixed_case_response :: Response where
  "mixed_case_response =
     \<lparr>resp_StatusCode = 200,
      resp_Header = [(''content-type'', [''text/event-stream'']),
                     (''CONTENT-LENGTH'', [''24'']),
                     (''Transfer-encoding'', [''chunked''])],
      resp_Body = []\<rparr>"

definition mixed_case_upstream :: "Outbound \<Rightarrow> Response option" where
  "mixed_case_upstream req = Some mixed_case_response"

definition no_flush_writer :: ResponseWriter where
  "no_flush_writer = fresh_writer\<lparr>w_flusher := False\<rparr>"

definition gone_writer :: ResponseWriter where
  "gone_writer = fresh_writer\<lparr>w_fail_at := Some 1\<rparr>"

definition empty_Authorization_request :: Request where
  "empty_Authorization_request =
     req_with [''Authorization'' \<mapsto> [[]], ''X-Api-Key'' \<mapsto> [''sk-1234'']]"

section \<open>Basic facts\<close>

lemma canonical_Authorization: "CanonicalHeaderKey ''Authorization'' = ''Authorization''"
  by code_simp

lemma canonical_x_api_key: "CanonicalHeaderKey ''x-api-key'' = ''X-Api-Key''"
  by code_simp

lemma TrimPrefix_append: "TrimPrefix (p @ s) p = s"
  by (simp add: TrimPrefix_def HasPrefix_def)

lemma HasPrefix_split: "HasPrefix s p \<Longrightarrow> s = p @ TrimPrefix s p"
  unfolding HasPrefix_def TrimPrefix_def by (metis append_take_drop_id)

lemma authMiddleware_with_Authorization:
  "authToken \<noteq> [] \<Longrightarrow> Header_Get (r_Header r) ''Authorization'' \<noteq> [] \<Longrightarrow>
   authMiddleware authToken next w r =
     (if TrimPrefix (Header_Get (r_Header r) ''Authorization'') ''Bearer '' = authToken
      then next w r else (http_Error w ''Invalid token'' 401, []))"
  by (simp add: authMiddleware_def Let_def StatusUnauthorized_def)

lemma route_for_Inr:
  "route_for E modelConfigs body = Inr config \<longleftrightarrow>
     Result_String E (gjson_Get E body ''model'') \<noteq> []
     \<and> modelConfigs (Result_String E (gjson_Get E body ''model'')) = Some config
     \<and> isAnthropicModel (Model (LitellmParams config))"
  by (auto simp: route_for_def Let_def split: option.splits)

lemma http_Error_fresh:
  "final_status code \<Longrightarrow> w_sent w = None \<Longrightarrow> w_out w = [] \<Longrightarrow> w_fail_at w = None \<Longrightarrow>
   w_sent (http_Error w msg code)
     = Some (code, Header_Set (Header_Set (Header_Del (w_Header w) ''Content-Length'')
                ''Content-Type'' ''text/plain; charset=utf-8'')
                ''X-Content-Type-Options'' ''nosniff'')
   \<and> w_out (http_Error w msg code) = [Write (msg @ [newline])]"
  by (auto simp: http_Error_def Let_def WriteHeader_def WriteHeader_panics_def rw_Write_def
        final_status_def informational_def)

lemma Result_String_nonempty_Exists:
  "Result_String E t \<noteq> [] \<Longrightarrow> Result_Exists t"
  by (auto simp: Result_String_def Result_Exists_def split: gjson_Type.splits)

lemma slice_split:
  assumes "take n (drop i xs) = ys"
  shows "xs = take i xs @ ys @ drop (i + length ys) xs"
proof -
  have "take (length ys) (drop i xs) = ys"
    using assms by (metis append_eq_conv_conj append_take_drop_id)
  then have "drop i xs = ys @ drop (length ys) (drop i xs)"
    by (metis append_take_drop_id)
  then have "drop i xs = ys @ drop (i + length ys) xs"
    by (simp add: add.commute)
  then show ?thesis
    by (metis append_take_drop_id)
qed

lemma build_request_body:
  "build_request E config path body = Inr (req, isStream) \<Longrightarrow>
   sjson_SetBytes E body ''model'' (upstream_model_name (Model (LitellmParams config)))
     = Some (o_Body req)"
  by (auto simp: build_request_def Let_def split: option.splits if_splits)

lemma build_request_flag:
  "build_request E config path body = Inr (req, isStream) \<Longrightarrow>
   isStream = Result_Bool (gjson_Get E body ''stream'')"
  by (auto simp: build_request_def Let_def split: option.splits if_splits)

lemma proxyToUpstream_calls:
  "r_Body r = Some body \<Longrightarrow> route_for E modelConfigs body = Inr config \<Longrightarrow>
   build_request E config (r_Path r) body = Inr (req, isStream) \<Longrightarrow>
   snd (proxyToUpstream E modelConfigs w r) = [req]"
  by (simp add: proxyToUpstream_def split: option.splits)

lemma proxyToUpstream_relay:
  "r_Body r = Some body \<Longrightarrow> route_for E modelConfigs body = Inr config \<Longrightarrow>
   build_request E config (r_Path r) body = Inr (req, isStream) \<Longrightarrow>
   client_Do E req = Some resp \<Longrightarrow>
   proxyToUpstream E modelConfigs w r = (relay w resp isStream, [req])"
  by (simp add: proxyToUpstream_def)

lemma lower_byte_not_upper:
  "\<not> (65 \<le> (of_char (lower_byte c) :: nat) \<and> (of_char (lower_byte c) :: nat) \<le> 90)"
  by (auto simp: lower_byte_def Let_def)

lemma ToLower_no_upper_head:
  "ToLower s = c # cs \<Longrightarrow> \<not> (65 \<le> (of_char c :: nat) \<and> (of_char c :: nat) \<le> 90)"
  using lower_byte_not_upper by (cases s) (auto simp: ToLower_def)

lemma ParseBool_ToLower:
  "(case ParseBool (ToLower s) of Some b \<Rightarrow> b | None \<Rightarrow> False)
     = (ToLower s \<in> {''1'', ''t'', ''true''})"
proof -
  have "ToLower s \<noteq> ''T''" "ToLower s \<noteq> ''TRUE''" "ToLower s \<noteq> ''True''"
    using ToLower_no_upper_head [of s] by auto
  then show ?thesis
    by (simp add: ParseBool_def)
qed

subsection \<open>The relay\<close>

lemma foldl_Header_Add:
  "foldl (\<lambda>h' v. Header_Add h' key v) h vs =
     (if vs = [] then h
      else h(CanonicalHeaderKey key \<mapsto>
               (case h (CanonicalHeaderKey key) of None \<Rightarrow> vs | Some old \<Rightarrow> old @ vs)))"
proof (induction vs arbitrary: h)
  case Nil
  then show ?case by simp
next
  case (Cons v vs)
  show ?case
    by (simp add: Cons.IH) (auto simp: Header_Add_def Let_def split: option.splits)
qed

lemma header_values_Cons:
  "header_values ((key, vs) # hs) k =
     (if k = key then (if vs = [] then None else Some vs) else header_values hs k)"
  by (auto simp: header_values_def split: list.splits)

lemma header_values_absent:
  "k \<notin> fst ` set hs \<Longrightarrow> header_values hs k = None"
  by (simp add: header_values_def map_of_eq_None_iff [THEN iffD2])

lemma copy_headers_lookup:
  "distinct (map fst hs) \<Longrightarrow> \<forall>k\<in>set (map fst hs). CanonicalHeaderKey k = k \<Longrightarrow>
   copy_headers s hs h k =
     (case header_values hs k of
        None \<Rightarrow> h k
      | Some vs \<Rightarrow>
          if s \<and> framing_header k then h k
          else Some ((case h k of None \<Rightarrow> [] | Some old \<Rightarrow> old) @ vs))"
proof (induction hs arbitrary: h)
  case Nil
  then show ?case by (simp add: header_values_def)
next
  case (Cons a hs)
  obtain key vs where a: "a = (key, vs)" by (cases a)
  from Cons.prems a have d: "distinct (map fst hs)" and nk: "key \<notin> fst ` set hs"
    and ck: "CanonicalHeaderKey key = key"
    and c: "\<forall>k\<in>set (map fst hs). CanonicalHeaderKey k = k"
    by auto
  note IH = Cons.IH [OF d c]
  have abs: "header_values hs key = None"
    using nk by (rule header_values_absent)
  show ?case
  proof (cases "s \<and> framing_header key")
    case True
    then have step: "copy_headers s (a # hs) h = copy_headers s hs h"
      by (auto simp: a framing_header_def)
    show ?thesis
      unfolding step IH using True abs
      by (auto simp: a header_values_Cons split: option.splits)
  next
    case False
    then have step: "copy_headers s (a # hs) h
               = copy_headers s hs (foldl (\<lambda>h' v. Header_Add h' key v) h vs)"
      by (auto simp: a framing_header_def)
    show ?thesis
      unfolding step IH using False abs
      by (auto simp: a header_values_Cons foldl_Header_Add ck split: option.splits)
  qed
qed

lemma copy_headers_fresh:
  "distinct (map fst hs) \<Longrightarrow> \<forall>k\<in>set (map fst hs). CanonicalHeaderKey k = k \<Longrightarrow>
   copy_headers s hs Map.empty k =
     (if s \<and> framing_header k then None else header_values hs k)"
  by (simp add: copy_headers_lookup split: option.splits)

lemma rw_Write_sent:
  "rw_Write w bs = Some w' \<Longrightarrow> w_sent w = Some x \<Longrightarrow> w_sent w' = Some x"
  by (auto simp: rw_Write_def WriteHeader_def split: option.splits if_splits)

lemma stream_lines_sent:
  "w_sent w = Some x \<Longrightarrow> w_sent (stream_lines w ls) = Some x"
proof (induction ls arbitrary: w)
  case Nil
  then show ?case by simp
next
  case (Cons l ls)
  show ?case
  proof (cases "rw_Write w (l @ [newline])")
    case None
    then show ?thesis using Cons.prems by simp
  next
    case (Some w')
    then have "w_sent (rw_Flush w') = Some x"
      using rw_Write_sent [OF Some Cons.prems] by (simp add: rw_Flush_def)
    then show ?thesis using Some by (simp add: Cons.IH)
  qed
qed

lemma http_Error_sent:
  "w_sent w = Some x \<Longrightarrow> w_sent (http_Error w msg code) = Some x"
  by (auto simp: http_Error_def Let_def WriteHeader_def WriteHeader_panics_def rw_Write_def
        split: option.splits)

lemma WriteHeader_final:
  "final_status code \<Longrightarrow> w_sent w = None \<Longrightarrow>
   WriteHeader w code = w\<lparr>w_sent := Some (code, w_Header w)\<rparr> \<and> \<not> WriteHeader_panics w code"
  by (auto simp: WriteHeader_def WriteHeader_panics_def final_status_def informational_def)

lemma WriteHeader_keeps:
  "w_out (WriteHeader w code) = w_out w" "w_fail_at (WriteHeader w code) = w_fail_at w"
  "w_flusher (WriteHeader w code) = w_flusher w" "w_Header (WriteHeader w code) = w_Header w"
  by (simp_all add: WriteHeader_def)

lemma WriteHeader_panic:
  "w_sent w = None \<Longrightarrow> \<not> valid_status code \<Longrightarrow>
   WriteHeader_panics w code \<and> WriteHeader w code = w\<lparr>w_panicked := True\<rparr>"
  by (auto simp: WriteHeader_def WriteHeader_panics_def valid_status_def)

lemma relay_sent:
  "final_status (resp_StatusCode resp) \<Longrightarrow> w_sent w = None \<Longrightarrow>
   w_sent (relay w resp s)
     = Some (resp_StatusCode resp, copy_headers s (resp_Header resp) (w_Header w))"
proof -
  assume f: "final_status (resp_StatusCode resp)" and n: "w_sent w = None"
  let ?w1 = "w\<lparr>w_Header := copy_headers s (resp_Header resp) (w_Header w)\<rparr>"
  let ?w2 = "?w1\<lparr>w_sent := Some (resp_StatusCode resp, w_Header ?w1)\<rparr>"
  have "w_sent ?w1 = None" using n by simp
  from WriteHeader_final [OF f this]
  have wh: "WriteHeader ?w1 (resp_StatusCode resp) = ?w2"
    and np: "\<not> WriteHeader_panics ?w1 (resp_StatusCode resp)"
    by simp_all
  have s2: "w_sent ?w2 = Some (resp_StatusCode resp, copy_headers s (resp_Header resp) (w_Header w))"
    by simp
  have "relay w resp s =
          (if s then
             (if \<not> w_flusher ?w2 then
                http_Error ?w2 ''Streaming not supported'' StatusInternalServerError
              else stream_lines ?w2 (Scanner_lines (resp_Body resp)))
           else if resp_Body resp = [] then ?w2
           else (case rw_Write ?w2 (resp_Body resp) of None \<Rightarrow> ?w2 | Some w3 \<Rightarrow> w3))"
    unfolding relay_def Let_def wh using np by simp
  then show ?thesis
    using s2 stream_lines_sent [OF s2] http_Error_sent [OF s2] rw_Write_sent [OF _ s2]
    by (auto split: option.splits)
qed

lemma relay_panic:
  "w_sent w = None \<Longrightarrow> \<not> valid_status (resp_StatusCode resp) \<Longrightarrow>
   w_sent (relay w resp s) = None \<and> w_out (relay w resp s) = w_out w
   \<and> w_panicked (relay w resp s)"
proof -
  assume n: "w_sent w = None" and v: "\<not> valid_status (resp_StatusCode resp)"
  let ?w1 = "w\<lparr>w_Header := copy_headers s (resp_Header resp) (w_Header w)\<rparr>"
  have "w_sent ?w1 = None" using n by simp
  from WriteHeader_panic [OF this v]
  have "relay w resp s = ?w1\<lparr>w_panicked := True\<rparr>"
    unfolding relay_def Let_def by simp
  then show ?thesis using n by simp
qed

lemma rw_Write_never_fails:
  "w_fail_at w = None \<Longrightarrow>
   \<exists>w'. rw_Write w bs = Some w' \<and> w_out w' = w_out w @ [Write bs] \<and> w_fail_at w' = None"
  by (simp add: rw_Write_def WriteHeader_keeps)

lemma stream_lines_out:
  "w_fail_at w = None \<Longrightarrow>
   w_out (stream_lines w ls)
     = w_out w @ concat (map (\<lambda>l. [Write (l @ [newline]), Flush]) ls)"
proof (induction ls arbitrary: w)
  case Nil
  show ?case by simp
next
  case (Cons l ls)
  obtain w' where w': "rw_Write w (l @ [newline]) = Some w'"
    "w_out w' = w_out w @ [Write (l @ [newline])]" "w_fail_at w' = None"
    using rw_Write_never_fails [OF Cons.prems] by blast
  have "w_fail_at (rw_Flush w') = None"
    using w'(3) by (simp add: rw_Flush_def)
  from Cons.IH [OF this] show ?case
    using w' by (simp add: rw_Flush_def)
qed

lemma relay_stream_out:
  "valid_status (resp_StatusCode resp) \<Longrightarrow> w_flusher w \<Longrightarrow> w_fail_at w = None \<Longrightarrow>
   w_out (relay w resp True)
     = w_out w @ concat (map (\<lambda>l. [Write (l @ [newline]), Flush])
                           (Scanner_lines (resp_Body resp)))"
  by (simp add: relay_def Let_def WriteHeader_keeps WriteHeader_panics_def valid_status_def
        stream_lines_out)

lemma relay_no_flusher:
  "final_status (resp_StatusCode resp) \<Longrightarrow> w_sent w = None \<Longrightarrow> \<not> w_flusher w \<Longrightarrow>
   w_fail_at w = None \<Longrightarrow>
   w_out (relay w resp True) = w_out w @ [Write (''Streaming not supported'' @ [newline])]"
proof -
  assume f: "final_status (resp_StatusCode resp)" and n: "w_sent w = None"
    and nf: "\<not> w_flusher w" and a: "w_fail_at w = None"
  let ?w1 = "w\<lparr>w_Header := copy_headers True (resp_Header resp) (w_Header w)\<rparr>"
  let ?w2 = "?w1\<lparr>w_sent := Some (resp_StatusCode resp, w_Header ?w1)\<rparr>"
  have "w_sent ?w1 = None" using n by simp
  from WriteHeader_final [OF f this]
  have wh: "WriteHeader ?w1 (resp_StatusCode resp) = ?w2"
    and np: "\<not> WriteHeader_panics ?w1 (resp_StatusCode resp)"
    by simp_all
  have "relay w resp True = http_Error ?w2 ''Streaming not supported'' StatusInternalServerError"
    unfolding relay_def Let_def wh using np nf by simp
  then show ?thesis
    using a by (simp add: http_Error_def Let_def WriteHeader_def WriteHeader_panics_def
                  rw_Write_def)
qed

lemma copy_headers_general:
  "copy_headers s hs h k =
     (let add = concat (map snd (filter (\<lambda>(key, vs). CanonicalHeaderKey key = k
                                           \<and> \<not> (s \<and> framing_header key)) hs))
      in if add = [] then h k
         else Some ((case h k of None \<Rightarrow> [] | Some old \<Rightarrow> old) @ add))"
proof (induction hs arbitrary: h)
  case Nil
  show ?case by simp
next
  case (Cons a hs)
  obtain key vs where a: "a = (key, vs)" by (cases a)
  show ?case
  proof (cases "s \<and> framing_header key")
    case True
    then have step: "copy_headers s (a # hs) h = copy_headers s hs h"
      by (auto simp: a framing_header_def)
    show ?thesis
      unfolding step Cons.IH using True by (simp add: a)
  next
    case False
    then have step: "copy_headers s (a # hs) h
               = copy_headers s hs (foldl (\<lambda>h' v. Header_Add h' key v) h vs)"
      by (auto simp: a framing_header_def)
    show ?thesis
      unfolding step Cons.IH using False
      by (auto simp: a foldl_Header_Add Let_def split: option.splits)
  qed
qed

lemma nonempty_case:
  "(case xs of [] \<Rightarrow> None | v # vs \<Rightarrow> Some (v # vs)) = (if xs = [] then None else Some xs)"
  by (cases xs) simp_all

lemma copy_headers_empty:
  "copy_headers s hs Map.empty k = copied_headers s hs k"
  by (auto simp: copy_headers_general copied_headers_def Let_def nonempty_case)

lemma no_header_named:
  "k \<notin> fst ` set hs \<Longrightarrow> \<forall>key\<in>set (map fst hs). CanonicalHeaderKey key = key \<Longrightarrow>
   filter (\<lambda>(key, vs). CanonicalHeaderKey key = k \<and> Q key) hs = []"
  by (induction hs) auto

lemma copied_headers_canonical:
  "distinct (map fst hs) \<Longrightarrow> \<forall>key\<in>set (map fst hs). CanonicalHeaderKey key = key \<Longrightarrow>
   copied_headers s hs k = (if s \<and> framing_header k then None else header_values hs k)"
  using copy_headers_fresh [of hs s k] by (simp add: copy_headers_empty)

subsection \<open>The scanner\<close>

lemma takeWhile_line:
  "newline \<notin> set l \<Longrightarrow> takeWhile (\<lambda>c. c \<noteq> newline) (l @ newline # rest) = l"
  by (induction l) auto

lemma Scanner_lines_line:
  assumes "newline \<notin> set l" and "length l < maxTokenSize"
  shows "Scanner_lines (l @ newline # rest) = dropCR l # Scanner_lines rest"
proof -
  have "Scanner_lines (l @ newline # rest)
        = (let raw = takeWhile (\<lambda>c. c \<noteq> newline) (l @ newline # rest)
           in if maxTokenSize \<le> length raw then []
              else dropCR raw # Scanner_lines (drop (Suc (length raw)) (l @ newline # rest)))"
    by (subst Scanner_lines.simps) simp
  then show ?thesis
    using assms by (simp add: takeWhile_line Let_def)
qed

lemma Scanner_lines_too_long:
  assumes "newline \<notin> set l" and "maxTokenSize \<le> length l"
  shows "Scanner_lines (l @ newline # rest) = []"
proof -
  have "Scanner_lines (l @ newline # rest)
        = (let raw = takeWhile (\<lambda>c. c \<noteq> newline) (l @ newline # rest)
           in if maxTokenSize \<le> length raw then []
              else dropCR raw # Scanner_lines (drop (Suc (length raw)) (l @ newline # rest)))"
    by (subst Scanner_lines.simps) simp
  then show ?thesis
    using assms by (simp add: takeWhile_line Let_def)
qed

lemma Scanner_lines_delimited:
  "\<forall>l\<in>set ls. newline \<notin> set l \<and> length l < maxTokenSize \<Longrightarrow>
   Scanner_lines (newline_delimited ls) = map dropCR ls"
proof (induction ls)
  case Nil
  show ?case by (subst Scanner_lines.simps) (simp add: newline_delimited_def)
next
  case (Cons l ls)
  have "newline_delimited (l # ls) = l @ newline # newline_delimited ls"
    by (simp add: newline_delimited_def)
  then show ?case
    using Cons by (simp add: Scanner_lines_line)
qed

lemma long_line_facts:
  "newline \<notin> set long_line" "length long_line = maxTokenSize"
  by (auto simp: long_line_def newline_def)

subsection \<open>The sample data evaluated\<close>

lemmas sample_bodies =
  stream_body_def string_body_def plain_body_def gpt_body_def empty_model_body_def
  no_model_body_def

lemma sample_gjson_values:
  "sample_gjson stream_body ''model'' = str_result ''claude-x'' 9"
  "sample_gjson stream_body ''stream'' = true_result 29"
  "sample_gjson string_body ''model'' = str_result ''claude-x'' 9"
  "sample_gjson string_body ''stream'' = str_result ''true'' 29"
  "sample_gjson plain_body ''model'' = str_result ''claude-x'' 9"
  "sample_gjson plain_body ''stream'' = zero_Result"
  "sample_gjson gpt_body ''model'' = str_result ''gpt-4o'' 9"
  "sample_gjson empty_model_body ''model'' = str_result [] 9"
  "sample_gjson no_model_body ''model'' = zero_Result"
  by (simp_all add: sample_gjson_def sample_lookups_def sample_bodies)

lemma sample_env_simps:
  "gjson_Get (sample_env up) = sample_gjson"
  "NewRequest_ok (sample_env up) url = True"
  "client_Do (sample_env up) = up"
  "sjson_insert (sample_env up) json path v = None"
  by (simp_all add: sample_env_def)

lemma Result_String_str_result: "Result_String E (str_result s i) = s"
  by (simp add: Result_String_def str_result_def)

lemma sample_routes_simps:
  "sample_routes ''claude-x'' = Some claude_route"
  "sample_routes ''gpt-4o'' = Some gpt_route"
  by (simp_all add: sample_routes_def)

lemma sample_route_for:
  "route_for (sample_env up) sample_routes stream_body = Inr claude_route"
  "route_for (sample_env up) sample_routes string_body = Inr claude_route"
  "route_for (sample_env up) sample_routes plain_body = Inr claude_route"
  by (simp_all add: route_for_Inr sample_env_simps sample_gjson_values Result_String_str_result
        sample_routes_simps)
     (simp_all add: claude_route_def isAnthropicModel_def HasPrefix_def)

lemma sample_build_request:
  "\<exists>req. build_request (sample_env up) claude_route path stream_body = Inr (req, True)"
  "\<exists>req. build_request (sample_env up) claude_route path string_body = Inr (req, True)"
  "\<exists>req. build_request (sample_env up) claude_route path plain_body = Inr (req, False)"
  by (simp_all add: build_request_def sjson_SetBytes_def Let_def sample_env_simps
        sample_gjson_values str_result_def true_result_def zero_Result_def Result_Bool_def
        ParseBool_def ToLower_def lower_byte_def)

lemma body_request_simps:
  "r_Body (body_request b) = Some b"
  "r_Path (body_request b) = ''/v1/messages''"
  by (simp_all add: body_request_def)

lemma fresh_writer_simps:
  "w_sent fresh_writer = None" "w_out fresh_writer = []" "w_fail_at fresh_writer = None"
  "w_Header fresh_writer = Map.empty" "w_flusher fresh_writer"
  by (simp_all add: fresh_writer_def)

lemma framing_header_samples:
  "framing_header ''Content-Length''" "framing_header ''Transfer-Encoding''"
  "\<not> framing_header ''Content-Type''"
  unfolding framing_header_def by code_simp+

lemma sample_response_keys:
  "distinct (map fst (resp_Header (sample_response b)))"
  "\<forall>k\<in>set (map fst (resp_Header (sample_response b))). CanonicalHeaderKey k = k"
  "\<forall>k\<in>set (map fst (resp_Header (sample_response b))). \<forall>c\<in>set k. (of_char c :: nat) < 128"
  unfolding sample_response_def by (simp, code_simp, simp)

lemma sample_header_values:
  "header_values (resp_Header (sample_response b)) ''Content-Length'' = Some [''24'']"
  "header_values (resp_Header (sample_response b)) ''Transfer-Encoding'' = Some [''chunked'']"
  "header_values (resp_Header (sample_response b)) ''Content-Type'' = Some [''text/event-stream'']"
  by (simp_all add: header_values_def sample_response_def)

text \<open>The sample lookups locate their values, and the sample request is built as expected.\<close>

lemma sample_gjson_locates:
  "gjson_locates (sample_env up) stream_body ''model''"
  "gjson_locates (sample_env up) stream_body ''stream''"
  "gjson_locates (sample_env up) string_body ''model''"
  "gjson_locates (sample_env up) string_body ''stream''"
  "gjson_locates (sample_env up) plain_body ''model''"
  "gjson_locates (sample_env up) plain_body ''stream''"
  "gjson_locates (sample_env up) gpt_body ''model''"
  "gjson_locates (sample_env up) empty_model_body ''model''"
  "gjson_locates (sample_env up) no_model_body ''model''"
  unfolding gjson_locates_def Let_def sample_env_simps sample_gjson_values
  by (simp_all add: str_result_def true_result_def zero_Result_def Result_Exists_def
        sample_bodies)

lemma sample_outbound:
  "\<exists>req. build_request (sample_env up) claude_route ''/v1/messages'' plain_body = Inr (req, False)
     \<and> o_Method req = ''POST''
     \<and> o_URL req = ''https://api.example.com/v1/messages''
     \<and> o_Timeout req = 30
     \<and> Header_Get (o_Header req) ''Authorization'' = ''Bearer up-key''
     \<and> Header_Get (o_Header req) ''Content-Type'' = ''application/json''
     \<and> Header_Get (o_Header req) ''User-Agent'' = ''llmp-proxy/1.0''"
proof -
  have c: "CanonicalHeaderKey ''Content-Type'' = ''Content-Type''"
    "CanonicalHeaderKey ''User-Agent'' = ''User-Agent''"
    by code_simp+
  have u: "TrimSuffix (APIBase (LitellmParams claude_route)) ''/'' = ''https://api.example.com''"
    by (simp add: TrimSuffix_def HasSuffix_def claude_route_def)
  have k: "APIKey (LitellmParams claude_route) = ''up-key''"
    by (simp add: claude_route_def)
  show ?thesis
    unfolding build_request_def sjson_SetBytes_def Let_def sample_env_simps sample_gjson_values u k
    by (simp add: str_result_def zero_Result_def Result_Bool_def Header_Get_def Header_Set_def
          c canonical_Authorization)
qed

lemma sample_stream_relay:
  assumes "\<And>req. up req = Some resp"
  shows "fst (proxyToUpstream (sample_env up) sample_routes w (body_request stream_body))
           = relay w resp True"
proof -
  obtain req where
    br: "build_request (sample_env up) claude_route (r_Path (body_request stream_body))
           stream_body = Inr (req, True)"
    using sample_build_request(1) by blast
  have "client_Do (sample_env up) req = Some resp"
    by (simp add: sample_env_simps assms)
  from proxyToUpstream_relay [OF body_request_simps(1) sample_route_for(1) br this]
  show ?thesis by simp
qed

lemma sample_plain_relay:
  assumes "\<And>req. up req = Some resp"
  shows "fst (proxyToUpstream (sample_env up) sample_routes w (body_request plain_body))
           = relay w resp False"
proof -
  obtain req where
    br: "build_request (sample_env up) claude_route (r_Path (body_request plain_body))
           plain_body = Inr (req, False)"
    using sample_build_request(3) by blast
  have "client_Do (sample_env up) req = Some resp"
    by (simp add: sample_env_simps assms)
  from proxyToUpstream_relay [OF body_request_simps(1) sample_route_for(3) br this]
  show ?thesis by simp
qed

lemma three_lines_scanned:
  "Scanner_lines (newline_delimited three_lines) = [''data: a'', ''data: b'', ''data: c'']"
proof -
  have "\<forall>l\<in>set three_lines. newline \<notin> set l \<and> length l < maxTokenSize"
    by (simp add: three_lines_def newline_def carriage_return_def maxTokenSize_def)
  then have "Scanner_lines (newline_delimited three_lines) = map dropCR three_lines"
    by (rule Scanner_lines_delimited)
  then show ?thesis
    by (simp add: three_lines_def dropCR_def carriage_return_def)
qed

lemma sample_status:
  "final_status (resp_StatusCode (sample_response b))"
  "valid_status (resp_StatusCode (sample_response b))"
  "final_status (resp_StatusCode mixed_case_response)"
  "\<not> valid_status (resp_StatusCode (sample_response b\<lparr>resp_StatusCode := 99\<rparr>))"
  "\<not> informational (resp_StatusCode (sample_response b))"
  "valid_status (resp_StatusCode mixed_case_response)"
  "\<not> informational (resp_StatusCode mixed_case_response)"
  by (simp_all add: sample_response_def mixed_case_response_def final_status_def
        valid_status_def informational_def)

lemma relay_gone_writer:
  "w_out (relay gone_writer (sample_response (newline_delimited three_lines)) True)
     = [Write (''data: a'' @ [newline]), Flush]"
proof -
  let ?resp = "sample_response (newline_delimited three_lines)"
  let ?w1 = "gone_writer\<lparr>w_Header := copy_headers True (resp_Header ?resp) (w_Header gone_writer)\<rparr>"
  have n: "w_sent ?w1 = None"
    by (simp add: gone_writer_def fresh_writer_def)
  from WriteHeader_final [OF sample_status(1) n]
  have wh: "WriteHeader ?w1 (resp_StatusCode ?resp)
              = ?w1\<lparr>w_sent := Some (resp_StatusCode ?resp, w_Header ?w1)\<rparr>"
    and np: "\<not> WriteHeader_panics ?w1 (resp_StatusCode ?resp)"
    by simp_all
  have b: "resp_Body ?resp = newline_delimited three_lines"
    by (simp add: sample_response_def)
  show ?thesis
    unfolding relay_def Let_def wh b three_lines_scanned using np
    by (simp add: gone_writer_def fresh_writer_def rw_Write_def rw_Flush_def WriteHeader_def
          is_Write_def)
qed

lemma mixed_case_copied:
  "copied_headers True (resp_Header mixed_case_response) ''Content-Length'' = None"
  "copied_headers True (resp_Header mixed_case_response) ''Transfer-Encoding'' = None"
  "copied_headers True (resp_Header mixed_case_response) ''Content-Type''
     = Some [''text/event-stream'']"
  "copied_headers False (resp_Header mixed_case_response) ''Content-Length'' = Some [''24'']"
  "copied_headers False (resp_Header mixed_case_response) ''Transfer-Encoding''
     = Some [''chunked'']"
  "copied_headers False (resp_Header mixed_case_response) ''Content-Type''
     = Some [''text/event-stream'']"
  by code_simp+

lemma mixed_case_ascii:
  "\<forall>k\<in>set (map fst (resp_Header mixed_case_response)). \<forall>c\<in>set k. (of_char c :: nat) < 128"
  by (simp add: mixed_case_response_def)

section \<open>The authenticator\<close>

text \<open>
  Claim C1. With a non-empty shared secret, \<open>authMiddleware\<close> has exactly these outcomes:
  the request goes on to the next handler when \<open>Authorization\<close> is \<open>Bearer\<close>, a space
  and the secret; it goes on when \<open>Authorization\<close> is absent and \<open>x-api-key\<close> is the
  secret; it is answered 401 with the "required" message when both headers are absent;
  it is answered 401 with "Invalid token" when a credential is present (the
  \<open>Authorization\<close> value with the bearer prefix stripped, or else the \<open>x-api-key\<close>
  value) and differs from the secret. Headers are read with \<open>Header.Get\<close>, as the
  program reads them, for which a header without a value is an absent header. A
  rejection makes no upstream call and does not run the next handler.
\<close>

theorem authMiddleware_outcomes:
  "authToken \<noteq> [] \<Longrightarrow>
   (Header_Get (r_Header r) ''Authorization'' = ''Bearer '' @ authToken
      \<longrightarrow> authMiddleware authToken next w r = next w r) \<and>
   (Header_Get (r_Header r) ''Authorization'' = []
      \<and> Header_Get (r_Header r) ''x-api-key'' = authToken
      \<longrightarrow> authMiddleware authToken next w r = next w r) \<and>
   (Header_Get (r_Header r) ''Authorization'' = []
      \<and> Header_Get (r_Header r) ''x-api-key'' = []
      \<longrightarrow> authMiddleware authToken next w r =
            (http_Error w ''Authorization or x-api-key header required'' 401, [])) \<and>
   (Header_Get (r_Header r) ''Authorization'' \<noteq> []
      \<and> TrimPrefix (Header_Get (r_Header r) ''Authorization'') ''Bearer '' \<noteq> authToken
      \<longrightarrow> authMiddleware authToken next w r = (http_Error w ''Invalid token'' 401, [])) \<and>
   (Header_Get (r_Header r) ''Authorization'' = []
      \<and> Header_Get (r_Header r) ''x-api-key'' \<noteq> []
      \<and> Header_Get (r_Header r) ''x-api-key'' \<noteq> authToken
      \<longrightarrow> authMiddleware authToken next w r = (http_Error w ''Invalid token'' 401, []))"
proof (intro conjI impI)
  assume tok: "authToken \<noteq> []"
  {
    assume a: "Header_Get (r_Header r) ''Authorization'' = ''Bearer '' @ authToken"
    have "TrimPrefix (''Bearer '' @ authToken) ''Bearer '' = authToken"
      by (rule TrimPrefix_append)
    with tok a show "authMiddleware authToken next w r = next w r"
      by (simp add: authMiddleware_def Let_def)
  next
    assume "Header_Get (r_Header r) ''Authorization'' = []
      \<and> Header_Get (r_Header r) ''x-api-key'' = authToken"
    with tok show "authMiddleware authToken next w r = next w r"
      by (simp add: authMiddleware_def Let_def)
  next
    assume "Header_Get (r_Header r) ''Authorization'' = []
      \<and> Header_Get (r_Header r) ''x-api-key'' = []"
    with tok show "authMiddleware authToken next w r =
            (http_Error w ''Authorization or x-api-key header required'' 401, [])"
      by (simp add: authMiddleware_def Let_def StatusUnauthorized_def)
  next
    assume "Header_Get (r_Header r) ''Authorization'' \<noteq> []
      \<and> TrimPrefix (Header_Get (r_Header r) ''Authorization'') ''Bearer '' \<noteq> authToken"
    with tok show "authMiddleware authToken next w r = (http_Error w ''Invalid token'' 401, [])"
      by (simp add: authMiddleware_def Let_def StatusUnauthorized_def)
  next
    assume "Header_Get (r_Header r) ''Authorization'' = []
      \<and> Header_Get (r_Header r) ''x-api-key'' \<noteq> []
      \<and> Header_Get (r_Header r) ''x-api-key'' \<noteq> authToken"
    with tok show "authMiddleware authToken next w r = (http_Error w ''Invalid token'' 401, [])"
      by (simp add: authMiddleware_def Let_def StatusUnauthorized_def)
  }
qed

theorem authMiddleware_outcomes_witness:
  "authMiddleware ''sk-1234'' ok_handler fresh_writer
      (req_with [''Authorization'' \<mapsto> [''Bearer sk-1234'']])
    = ok_handler fresh_writer (req_with [''Authorization'' \<mapsto> [''Bearer sk-1234'']])
   \<and> authMiddleware ''sk-1234'' ok_handler fresh_writer
      (req_with [''X-Api-Key'' \<mapsto> [''sk-1234'']])
    = ok_handler fresh_writer (req_with [''X-Api-Key'' \<mapsto> [''sk-1234'']])
   \<and> authMiddleware ''sk-1234'' ok_handler fresh_writer (req_with Map.empty)
    = (http_Error fresh_writer ''Authorization or x-api-key header required'' 401, [])
   \<and> authMiddleware ''sk-1234'' ok_handler fresh_writer
      (req_with [''Authorization'' \<mapsto> [''Bearer nope'']])
    = (http_Error fresh_writer ''Invalid token'' 401, [])
   \<and> authMiddleware ''sk-1234'' ok_handler fresh_writer
      (req_with [''X-Api-Key'' \<mapsto> [''nope'']])
    = (http_Error fresh_writer ''Invalid token'' 401, [])"
proof -
  have tok: "''sk-1234'' \<noteq> ([]::string)" by simp
  note T = authMiddleware_outcomes [OF tok]
  have 1: "Header_Get (r_Header (req_with [''Authorization'' \<mapsto> [''Bearer sk-1234'']]))
             ''Authorization'' = ''Bearer '' @ ''sk-1234''"
    by (simp add: Header_Get_def req_with_def canonical_Authorization)
  have 2: "Header_Get (r_Header (req_with [''X-Api-Key'' \<mapsto> [''sk-1234'']])) ''Authorization'' = []
           \<and> Header_Get (r_Header (req_with [''X-Api-Key'' \<mapsto> [''sk-1234'']])) ''x-api-key''
               = ''sk-1234''"
    by (simp add: Header_Get_def req_with_def canonical_Authorization canonical_x_api_key)
  have 3: "Header_Get (r_Header (req_with Map.empty)) ''Authorization'' = []
           \<and> Header_Get (r_Header (req_with Map.empty)) ''x-api-key'' = []"
    by (simp add: Header_Get_def req_with_def)
  have 4: "Header_Get (r_Header (req_with [''Authorization'' \<mapsto> [''Bearer nope'']]))
             ''Authorization'' \<noteq> []
           \<and> TrimPrefix (Header_Get (r_Header (req_with [''Authorization'' \<mapsto> [''Bearer nope'']]))
                ''Authorization'') ''Bearer '' \<noteq> ''sk-1234''"
    by (simp add: Header_Get_def req_with_def canonical_Authorization TrimPrefix_def
          HasPrefix_def)
  have 5: "Header_Get (r_Header (req_with [''X-Api-Key'' \<mapsto> [''nope'']])) ''Authorization'' = []
           \<and> Header_Get (r_Header (req_with [''X-Api-Key'' \<mapsto> [''nope'']])) ''x-api-key'' \<noteq> []
           \<and> Header_Get (r_Header (req_with [''X-Api-Key'' \<mapsto> [''nope'']])) ''x-api-key''
               \<noteq> ''sk-1234''"
    by (simp add: Header_Get_def req_with_def canonical_Authorization canonical_x_api_key)
  show ?thesis
    by (intro conjI)
       (rule T [THEN conjunct1, rule_format, OF 1],
        rule T [THEN conjunct2, THEN conjunct1, rule_format, OF 2],
        rule T [THEN conjunct2, THEN conjunct2, THEN conjunct1, rule_format, OF 3],
        rule T [THEN conjunct2, THEN conjunct2, THEN conjunct2, THEN conjunct1, rule_format,
                OF 4],
        rule T [THEN conjunct2, THEN conjunct2, THEN conjunct2, THEN conjunct2, rule_format,
                OF 5])
qed

text \<open>
  Claim C9, as stated: any \<open>Authorization\<close> header that is present makes the program
  ignore \<open>x-api-key\<close>, and a present header without the bearer prefix is compared
  whole with the secret. It fails for a header that is present with an empty value: the
  program reads it as absent and falls back to \<open>x-api-key\<close>, so the request below, whose
  \<open>Authorization\<close> value is not the secret, is let through on its \<open>x-api-key\<close>.
\<close>

theorem empty_Authorization_counterexample:
  "r_Header empty_Authorization_request ''Authorization'' = Some [[]]
   \<and> [] \<noteq> ''sk-1234''
   \<and> authMiddleware ''sk-1234'' ok_handler fresh_writer empty_Authorization_request
       = ok_handler fresh_writer empty_Authorization_request
   \<and> authMiddleware ''sk-1234'' ok_handler fresh_writer empty_Authorization_request
       \<noteq> (http_Error fresh_writer ''Invalid token'' 401, [])"
proof -
  let ?r = empty_Authorization_request
  have h: "r_Header ?r ''Authorization'' = Some [[]]"
    by (simp add: empty_Authorization_request_def req_with_def)
  have g: "Header_Get (r_Header ?r) ''Authorization'' = []"
    "Header_Get (r_Header ?r) ''x-api-key'' = ''sk-1234''"
    by (simp_all add: Header_Get_def empty_Authorization_request_def req_with_def
          canonical_Authorization canonical_x_api_key)
  have a: "authMiddleware ''sk-1234'' ok_handler fresh_writer ?r = ok_handler fresh_writer ?r"
    by (simp add: authMiddleware_def Let_def g)
  have "final_status 401"
    by (simp add: final_status_def)
  from http_Error_fresh [OF this, of fresh_writer "''Invalid token''"]
  have "w_out (http_Error fresh_writer ''Invalid token'' 401) = [Write (''Invalid token'' @ [newline])]"
    by (simp add: fresh_writer_simps)
  moreover have "w_out (fst (ok_handler fresh_writer ?r)) = [Flush]"
    by (simp add: ok_handler_def rw_Flush_def fresh_writer_simps)
  ultimately have "ok_handler fresh_writer ?r \<noteq> (http_Error fresh_writer ''Invalid token'' 401, [])"
    by auto
  with h a show ?thesis by simp
qed

text \<open>
  Claim C9, amended. When the \<open>Authorization\<close> header has a non-empty value that does not
  begin with \<open>Bearer\<close> and a space, the whole header value is compared with the secret,
  so the bare secret is let through; and whenever \<open>Authorization\<close> has a non-empty value
  the outcome is decided by it alone: a wrong credential there is answered 401 whatever
  \<open>x-api-key\<close> holds. An \<open>Authorization\<close> header with an empty value counts as absent:
  then \<open>x-api-key\<close> decides.
\<close>

theorem Authorization_takes_precedence:
  "authToken \<noteq> [] \<Longrightarrow>
   (Header_Get (r_Header r) ''Authorization'' \<noteq> []
      \<and> \<not> HasPrefix (Header_Get (r_Header r) ''Authorization'') ''Bearer '' \<longrightarrow>
      authMiddleware authToken next w r =
        (if Header_Get (r_Header r) ''Authorization'' = authToken then next w r
         else (http_Error w ''Invalid token'' 401, []))) \<and>
   (\<not> HasPrefix authToken ''Bearer '' \<and> Header_Get (r_Header r) ''Authorization'' = authToken
      \<longrightarrow> authMiddleware authToken next w r = next w r) \<and>
   (Header_Get (r_Header r) ''Authorization'' \<noteq> []
      \<and> TrimPrefix (Header_Get (r_Header r) ''Authorization'') ''Bearer '' \<noteq> authToken
      \<longrightarrow> authMiddleware authToken next w r = (http_Error w ''Invalid token'' 401, [])) \<and>
   (Header_Get (r_Header r) ''Authorization'' = [] \<longrightarrow>
      authMiddleware authToken next w r =
        (if Header_Get (r_Header r) ''x-api-key'' = [] then
           (http_Error w ''Authorization or x-api-key header required'' 401, [])
         else if Header_Get (r_Header r) ''x-api-key'' = authToken then next w r
         else (http_Error w ''Invalid token'' 401, [])))"
proof -
  assume tok: "authToken \<noteq> []"
  let ?A = "Header_Get (r_Header r) ''Authorization''"
  have present: "?A \<noteq> [] \<Longrightarrow>
      authMiddleware authToken next w r =
        (if TrimPrefix ?A ''Bearer '' = authToken then next w r
         else (http_Error w ''Invalid token'' 401, []))"
    using tok by (rule authMiddleware_with_Authorization)
  have 1: "?A \<noteq> [] \<and> \<not> HasPrefix ?A ''Bearer '' \<longrightarrow>
      authMiddleware authToken next w r =
        (if ?A = authToken then next w r else (http_Error w ''Invalid token'' 401, []))"
    using present by (simp add: TrimPrefix_def)
  have 2: "\<not> HasPrefix authToken ''Bearer '' \<and> ?A = authToken
      \<longrightarrow> authMiddleware authToken next w r = next w r"
    using present tok by (auto simp: TrimPrefix_def)
  have 3: "?A \<noteq> [] \<and> TrimPrefix ?A ''Bearer '' \<noteq> authToken
      \<longrightarrow> authMiddleware authToken next w r = (http_Error w ''Invalid token'' 401, [])"
    using present by simp
  have 4: "?A = [] \<longrightarrow>
      authMiddleware authToken next w r =
        (if Header_Get (r_Header r) ''x-api-key'' = [] then
           (http_Error w ''Authorization or x-api-key header required'' 401, [])
         else if Header_Get (r_Header r) ''x-api-key'' = authToken then next w r
         else (http_Error w ''Invalid token'' 401, []))"
    using tok by (simp add: authMiddleware_def Let_def StatusUnauthorized_def)
  from 1 2 3 4 show ?thesis by blast
qed

theorem Authorization_takes_precedence_witness:
  "authMiddleware ''sk-1234'' ok_handler fresh_writer
      (req_with [''Authorization'' \<mapsto> [''sk-1234''], ''X-Api-Key'' \<mapsto> [''other'']])
    = ok_handler fresh_writer
        (req_with [''Authorization'' \<mapsto> [''sk-1234''], ''X-Api-Key'' \<mapsto> [''other'']])
   \<and> authMiddleware ''sk-1234'' ok_handler fresh_writer
      (req_with [''Authorization'' \<mapsto> [''Basic abc''], ''X-Api-Key'' \<mapsto> [''sk-1234'']])
    = (http_Error fresh_writer ''Invalid token'' 401, [])
   \<and> authMiddleware ''sk-1234'' ok_handler fresh_writer empty_Authorization_request
    = ok_handler fresh_writer empty_Authorization_request"
proof -
  let ?r1 = "req_with [''Authorization'' \<mapsto> [''sk-1234''], ''X-Api-Key'' \<mapsto> [''other'']]"
  let ?r2 = "req_with [''Authorization'' \<mapsto> [''Basic abc''], ''X-Api-Key'' \<mapsto> [''sk-1234'']]"
  let ?r3 = empty_Authorization_request
  have tok: "''sk-1234'' \<noteq> ([]::string)" by simp
  have g1: "Header_Get (r_Header ?r1) ''Authorization'' = ''sk-1234''"
    and g2: "Header_Get (r_Header ?r2) ''Authorization'' = ''Basic abc''"
    by (simp_all add: Header_Get_def req_with_def canonical_Authorization)
  have g3: "Header_Get (r_Header ?r3) ''Authorization'' = []"
    and x3: "Header_Get (r_Header ?r3) ''x-api-key'' = ''sk-1234''"
    by (simp_all add: Header_Get_def empty_Authorization_request_def req_with_def
          canonical_Authorization canonical_x_api_key)
  have h1: "\<not> HasPrefix ''sk-1234'' ''Bearer ''
            \<and> Header_Get (r_Header ?r1) ''Authorization'' = ''sk-1234''"
    by (simp add: g1 HasPrefix_def)
  have h2: "Header_Get (r_Header ?r2) ''Authorization'' \<noteq> []
            \<and> TrimPrefix (Header_Get (r_Header ?r2) ''Authorization'') ''Bearer '' \<noteq> ''sk-1234''"
    by (simp add: g2 TrimPrefix_def HasPrefix_def)
  note T = Authorization_takes_precedence [OF tok]
  have 1: "authMiddleware ''sk-1234'' ok_handler fresh_writer ?r1 = ok_handler fresh_writer ?r1"
    by (rule T [THEN conjunct2, THEN conjunct1, rule_format, OF h1])
  have 2: "authMiddleware ''sk-1234'' ok_handler fresh_writer ?r2
             = (http_Error fresh_writer ''Invalid token'' 401, [])"
    by (rule T [THEN conjunct2, THEN conjunct2, THEN conjunct1, rule_format, OF h2])
  have 3: "authMiddleware ''sk-1234'' ok_handler fresh_writer ?r3 = ok_handler fresh_writer ?r3"
    using T [THEN conjunct2, THEN conjunct2, THEN conjunct2, rule_format, OF g3,
             of ok_handler fresh_writer]
    by (simp add: x3)
  from 1 2 3 show ?thesis by blast
qed

section \<open>Routing\<close>

text \<open>
  Claim C6. A request whose body has no \<open>model\<close> field, or has the empty string there, is
  answered 400 with "Model field is required". The reply is the same for every routing
  table: it is decided before the table is consulted, and no upstream call is made.
\<close>

theorem missing_model_rejected:
  "r_Body r = Some body \<Longrightarrow>
   \<not> Result_Exists (gjson_Get E body ''model'')
     \<or> (res_Type (gjson_Get E body ''model'') = JString
         \<and> res_Str (gjson_Get E body ''model'') = []) \<Longrightarrow>
   proxyToUpstream E modelConfigs w r = (http_Error w ''Model field is required'' 400, [])"
  by (auto simp: proxyToUpstream_def route_for_def Let_def StatusBadRequest_def
        Result_Exists_def Result_String_def)

theorem missing_model_rejected_witness:
  "proxyToUpstream (sample_env no_upstream) sample_routes fresh_writer
       (body_request no_model_body)
     = (http_Error fresh_writer ''Model field is required'' 400, [])
   \<and> proxyToUpstream (sample_env no_upstream) sample_routes fresh_writer
       (body_request empty_model_body)
     = (http_Error fresh_writer ''Model field is required'' 400, [])"
proof -
  let ?E = "sample_env no_upstream"
  have b1: "r_Body (body_request no_model_body) = Some no_model_body"
    and b2: "r_Body (body_request empty_model_body) = Some empty_model_body"
    by (simp_all add: body_request_def)
  have m1: "\<not> Result_Exists (gjson_Get ?E no_model_body ''model'')
     \<or> (res_Type (gjson_Get ?E no_model_body ''model'') = JString
         \<and> res_Str (gjson_Get ?E no_model_body ''model'') = [])"
    by (simp add: sample_env_simps sample_gjson_values Result_Exists_def zero_Result_def)
  have m2: "\<not> Result_Exists (gjson_Get ?E empty_model_body ''model'')
     \<or> (res_Type (gjson_Get ?E empty_model_body ''model'') = JString
         \<and> res_Str (gjson_Get ?E empty_model_body ''model'') = [])"
    by (simp add: sample_env_simps sample_gjson_values str_result_def)
  show ?thesis
    by (intro conjI) (rule missing_model_rejected [OF b1 m1], rule missing_model_rejected [OF b2 m2])
qed

text \<open>
  Claim C3. A request whose model name is in the routing table with an upstream model
  that does not begin with \<open>anthropic/\<close> is answered 400 and no upstream call is made,
  whatever else the body holds; for a model name that is not empty the message is the
  one that sends the caller to the chat-completions endpoint.
\<close>

theorem non_anthropic_route_rejected:
  "r_Body r = Some body \<Longrightarrow>
   modelConfigs (Result_String E (gjson_Get E body ''model'')) = Some config \<Longrightarrow>
   \<not> isAnthropicModel (Model (LitellmParams config)) \<Longrightarrow>
   (\<exists>msg. proxyToUpstream E modelConfigs w r = (http_Error w msg 400, [])) \<and>
   (Result_String E (gjson_Get E body ''model'') \<noteq> [] \<longrightarrow>
      proxyToUpstream E modelConfigs w r =
        (http_Error w ''OpenAI models should use /chat/completions endpoint'' 400, []))"
  by (auto simp: proxyToUpstream_def route_for_def Let_def StatusBadRequest_def)

theorem non_anthropic_route_rejected_witness:
  "proxyToUpstream (sample_env no_upstream) sample_routes fresh_writer (body_request gpt_body)
     = (http_Error fresh_writer ''OpenAI models should use /chat/completions endpoint'' 400, [])"
proof -
  let ?E = "sample_env no_upstream"
  have b: "r_Body (body_request gpt_body) = Some gpt_body"
    by (simp add: body_request_def)
  have n: "Result_String ?E (gjson_Get ?E gpt_body ''model'') = ''gpt-4o''"
    by (simp add: sample_env_simps sample_gjson_values Result_String_str_result)
  have c: "sample_routes (Result_String ?E (gjson_Get ?E gpt_body ''model'')) = Some gpt_route"
    by (simp only: n sample_routes_simps)
  have a: "\<not> isAnthropicModel (Model (LitellmParams gpt_route))"
    by (simp add: isAnthropicModel_def HasPrefix_def gpt_route_def)
  have e: "Result_String ?E (gjson_Get ?E gpt_body ''model'') \<noteq> []"
    by (simp only: n) simp
  show ?thesis
    by (rule non_anthropic_route_rejected [where modelConfigs = sample_routes and E = "?E",
          OF b c a, THEN conjunct2, rule_format, OF e])
qed

text \<open>
  Claim C10. A request that reaches the body rewrite (the route lookup of lines 101-116
  returned a route) has an upstream model that begins with \<open>anthropic/\<close>: the condition
  of the \<open>if\<close> in the function literal holds, its \<open>else\<close> branch, which strips
  \<open>openai/\<close>, is not taken, and the substituted model name is what follows
  \<open>anthropic/\<close> in the upstream model.
\<close>

theorem rewrite_step_sees_anthropic_route:
  "route_for E modelConfigs body = Inr config \<Longrightarrow>
   isAnthropicModel (Model (LitellmParams config))
   \<and> upstream_model_name (Model (LitellmParams config))
       = drop (length ''anthropic/'') (Model (LitellmParams config))
   \<and> Model (LitellmParams config)
       = ''anthropic/'' @ upstream_model_name (Model (LitellmParams config))
   \<and> \<not> HasPrefix (Model (LitellmParams config)) ''openai/''"
proof -
  let ?m = "Model (LitellmParams config)"
  assume "route_for E modelConfigs body = Inr config"
  then have a: "isAnthropicModel ?m"
    by (simp add: route_for_Inr)
  then have p: "HasPrefix ?m ''anthropic/''"
    by (simp add: isAnthropicModel_def)
  have n: "upstream_model_name ?m = drop (length ''anthropic/'') ?m"
    using a p by (simp only: upstream_model_name_def TrimPrefix_def if_True)
  have m: "?m = ''anthropic/'' @ upstream_model_name ?m"
    using a HasPrefix_split [OF p] by (simp only: upstream_model_name_def if_True)
  have "\<not> HasPrefix (''anthropic/'' @ upstream_model_name ?m) ''openai/''"
    by (simp add: HasPrefix_def)
  with m have "\<not> HasPrefix ?m ''openai/''"
    by simp
  with a n m show ?thesis by blast
qed

theorem rewrite_step_sees_anthropic_route_witness:
  "isAnthropicModel (Model (LitellmParams claude_route))
   \<and> upstream_model_name (Model (LitellmParams claude_route))
       = drop (length ''anthropic/'') (Model (LitellmParams claude_route))
   \<and> Model (LitellmParams claude_route)
       = ''anthropic/'' @ upstream_model_name (Model (LitellmParams claude_route))
   \<and> \<not> HasPrefix (Model (LitellmParams claude_route)) ''openai/''"
  by (rule rewrite_step_sees_anthropic_route [OF sample_route_for(3) [of no_upstream]])

section \<open>The request rewriter\<close>

text \<open>
  Claim C2. For a body whose \<open>model\<close> resolves to a route with an \<open>anthropic/\<close>
  upstream model, the body sent upstream is the inbound body with the raw text of the
  \<open>model\<close> value cut out and the upstream model name, without its \<open>anthropic/\<close>
  prefix and written as a JSON string, put in its place: every byte before and after
  that value is unchanged. \<open>gjson\<close> is taken to locate the value it returns
  (\<open>gjson_locates\<close>), and the upstream URL to be one \<open>http.NewRequest\<close> accepts.
\<close>

theorem model_field_patched:
  assumes body: "r_Body r = Some body"
    and route: "route_for E modelConfigs body = Inr config"
    and loc: "gjson_locates E body ''model''"
    and url: "NewRequest_ok E (TrimSuffix (APIBase (LitellmParams config)) ''/'' @ r_Path r)"
  shows "\<exists>req pre post.
           snd (proxyToUpstream E modelConfigs w r) = [req]
           \<and> pre = take (res_Index (gjson_Get E body ''model'')) body
           \<and> body = pre @ res_Raw (gjson_Get E body ''model'') @ post
           \<and> o_Body req
               = pre @ appendStringify E (drop (length ''anthropic/'') (Model (LitellmParams config)))
                 @ post"
proof -
  let ?t = "gjson_Get E body ''model''"
  let ?name = "drop (length ''anthropic/'') (Model (LitellmParams config))"
  let ?pre = "take (res_Index ?t) body"
  let ?post = "drop (res_Index ?t + length (res_Raw ?t)) body"
  from route have ne: "Result_String E ?t \<noteq> []"
    and anth: "isAnthropicModel (Model (LitellmParams config))"
    by (simp_all add: route_for_Inr)
  from ne have "Result_Exists ?t" by (rule Result_String_nonempty_Exists)
  with loc have idx: "0 < res_Index ?t"
    and raw: "take (length (res_Raw ?t)) (drop (res_Index ?t) body) = res_Raw ?t"
    by (simp_all add: gjson_locates_def Let_def)
  have nm: "upstream_model_name (Model (LitellmParams config)) = ?name"
    using anth by (simp only: upstream_model_name_def TrimPrefix_def isAnthropicModel_def if_True)
  have set: "sjson_SetBytes E body ''model'' ?name = Some (?pre @ appendStringify E ?name @ ?post)"
    using idx by (simp add: sjson_SetBytes_def Let_def)
  obtain req isStream where
    br: "build_request E config (r_Path r) body = Inr (req, isStream)"
    using url set nm by (simp add: build_request_def Let_def)
  have 1: "snd (proxyToUpstream E modelConfigs w r) = [req]"
    by (rule proxyToUpstream_calls [OF body route br])
  have 2: "o_Body req = ?pre @ appendStringify E ?name @ ?post"
    using build_request_body [OF br] set nm by simp
  have 3: "body = ?pre @ res_Raw ?t @ ?post"
    by (rule slice_split [OF raw])
  from 1 2 3 show ?thesis by blast
qed

theorem model_field_patched_witness:
  \<open>map o_Body (snd (proxyToUpstream (sample_env no_upstream) sample_routes fresh_writer
                     (body_request plain_body)))
     = [''{"model":"claude-3-opus","max_tokens":5}'']\<close>
proof -
  let ?E = "sample_env no_upstream"
  let ?r = "body_request plain_body"
  have loc: "gjson_locates ?E plain_body ''model''"
    unfolding gjson_locates_def Let_def sample_env_simps sample_gjson_values
    by (simp add: str_result_def plain_body_def)
  have url: "NewRequest_ok ?E (TrimSuffix (APIBase (LitellmParams claude_route)) ''/'' @ r_Path ?r)"
    by (simp add: sample_env_simps)
  obtain req pre post where
    c: "snd (proxyToUpstream ?E sample_routes fresh_writer ?r) = [req]"
    and p: "pre = take (res_Index (gjson_Get ?E plain_body ''model'')) plain_body"
    and b: "plain_body = pre @ res_Raw (gjson_Get ?E plain_body ''model'') @ post"
    and o: "o_Body req = pre @ appendStringify ?E
              (drop (length ''anthropic/'') (Model (LitellmParams claude_route))) @ post"
    using model_field_patched [OF body_request_simps(1) sample_route_for(3) loc url,
            of fresh_writer]
    by blast
  have pre: \<open>pre = ''{"model":''\<close>
    unfolding p sample_env_simps sample_gjson_values by (simp add: str_result_def plain_body_def)
  have \<open>''{"model":'' @ ''"claude-x"'' @ '',"max_tokens":5}'' = pre @ ''"claude-x"'' @ post\<close>
    using b unfolding sample_env_simps sample_gjson_values
    by (simp add: str_result_def plain_body_def)
  then have post: \<open>post = '',"max_tokens":5}''\<close>
    unfolding pre by simp
  have \<open>o_Body req = ''{"model":"claude-3-opus","max_tokens":5}''\<close>
    unfolding o pre post
    by (simp add: appendStringify_def mustMarshalString_def claude_route_def)
  with c show ?thesis by simp
qed

text \<open>
  Claim C5, as stated: the stream flag is true only for the JSON value \<open>true\<close>. It fails:
  for the body \<open>{"model":"claude-x","stream":"true"}\<close>, whose \<open>stream\<close> is a string,
  the flag is true.
\<close>

theorem stream_flag_string_counterexample:
  "stream_flag (sample_env no_upstream) claude_route ''/v1/messages'' string_body = Some True
   \<and> res_Type (gjson_Get (sample_env no_upstream) string_body ''stream'') = JString"
proof -
  obtain req where
    "build_request (sample_env no_upstream) claude_route ''/v1/messages'' string_body
       = Inr (req, True)"
    using sample_build_request(2) by blast
  then show ?thesis
    by (simp add: stream_flag_def sample_env_simps sample_gjson_values str_result_def)
qed

text \<open>
  Claim C5, amended. The flag is what \<open>Result.Bool\<close> makes of the \<open>stream\<close> value: true
  for the JSON value \<open>true\<close>, for a string that in lower case is \<open>1\<close>, \<open>t\<close> or
  \<open>true\<close>, and for a number other than zero; false in every other case, among them
  an absent field, \<open>null\<close>, \<open>false\<close>, an object and an array.
\<close>

theorem stream_flag_coercion:
  "build_request E config path body = Inr (req, isStream) \<Longrightarrow>
   isStream =
     (res_Type (gjson_Get E body ''stream'') = JTrue
      \<or> (res_Type (gjson_Get E body ''stream'') = JString
          \<and> ToLower (res_Str (gjson_Get E body ''stream'')) \<in> {''1'', ''t'', ''true''})
      \<or> (res_Type (gjson_Get E body ''stream'') = JNumber
          \<and> res_Num (gjson_Get E body ''stream'') \<noteq> 0))"
proof -
  assume "build_request E config path body = Inr (req, isStream)"
  then have "isStream = Result_Bool (gjson_Get E body ''stream'')"
    by (rule build_request_flag)
  then show ?thesis
    unfolding Result_Bool_def ParseBool_ToLower
    by (cases "res_Type (gjson_Get E body ''stream'')") simp_all
qed

theorem stream_flag_coercion_witness:
  "True =
     (res_Type (gjson_Get (sample_env no_upstream) string_body ''stream'') = JTrue
      \<or> (res_Type (gjson_Get (sample_env no_upstream) string_body ''stream'') = JString
          \<and> ToLower (res_Str (gjson_Get (sample_env no_upstream) string_body ''stream''))
               \<in> {''1'', ''t'', ''true''})
      \<or> (res_Type (gjson_Get (sample_env no_upstream) string_body ''stream'') = JNumber
          \<and> res_Num (gjson_Get (sample_env no_upstream) string_body ''stream'') \<noteq> 0))
   \<and> False =
     (res_Type (gjson_Get (sample_env no_upstream) plain_body ''stream'') = JTrue
      \<or> (res_Type (gjson_Get (sample_env no_upstream) plain_body ''stream'') = JString
          \<and> ToLower (res_Str (gjson_Get (sample_env no_upstream) plain_body ''stream''))
               \<in> {''1'', ''t'', ''true''})
      \<or> (res_Type (gjson_Get (sample_env no_upstream) plain_body ''stream'') = JNumber
          \<and> res_Num (gjson_Get (sample_env no_upstream) plain_body ''stream'') \<noteq> 0))"
proof -
  let ?E = "sample_env no_upstream"
  obtain r1 where 1: "build_request ?E claude_route ''/v1/messages'' string_body = Inr (r1, True)"
    using sample_build_request(2) by blast
  obtain r2 where 2: "build_request ?E claude_route ''/v1/messages'' plain_body = Inr (r2, False)"
    using sample_build_request(3) by blast
  show ?thesis
    by (intro conjI) (rule stream_flag_coercion [OF 1], rule stream_flag_coercion [OF 2])
qed

section \<open>The dispatcher and the relay\<close>

text \<open>
  Claim C8. When the call to the upstream fails, the reply is \<open>http.Error\<close> with
  "Error forwarding request" and status 502, applied to the writer as the handler
  received it: on a writer nothing was sent to, the status is 502, the headers are the
  two of \<open>http.Error\<close> and the body is that message alone.
\<close>

theorem upstream_failure_gives_502:
  "r_Body r = Some body \<Longrightarrow> route_for E modelConfigs body = Inr config \<Longrightarrow>
   build_request E config (r_Path r) body = Inr (req, isStream) \<Longrightarrow>
   client_Do E req = None \<Longrightarrow>
   proxyToUpstream E modelConfigs w r = (http_Error w ''Error forwarding request'' 502, [req])
   \<and> (w_sent w = None \<and> w_out w = [] \<and> w_fail_at w = None \<longrightarrow>
        w_sent (fst (proxyToUpstream E modelConfigs w r))
          = Some (502, Header_Set (Header_Set (Header_Del (w_Header w) ''Content-Length'')
                ''Content-Type'' ''text/plain; charset=utf-8'')
                ''X-Content-Type-Options'' ''nosniff'')
        \<and> w_out (fst (proxyToUpstream E modelConfigs w r))
          = [Write (''Error forwarding request'' @ [newline])])"
proof -
  assume a: "r_Body r = Some body" "route_for E modelConfigs body = Inr config"
    "build_request E config (r_Path r) body = Inr (req, isStream)" "client_Do E req = None"
  then have p: "proxyToUpstream E modelConfigs w r
        = (http_Error w ''Error forwarding request'' 502, [req])"
    by (simp add: proxyToUpstream_def StatusBadGateway_def)
  have "final_status 502"
    by (simp add: final_status_def)
  from http_Error_fresh [OF this, of w "''Error forwarding request''"] show ?thesis
    unfolding p by simp
qed

theorem upstream_failure_gives_502_witness:
  "proxyToUpstream (sample_env no_upstream) sample_routes fresh_writer (body_request plain_body)
     = (http_Error fresh_writer ''Error forwarding request'' 502,
        snd (proxyToUpstream (sample_env no_upstream) sample_routes fresh_writer
               (body_request plain_body)))
   \<and> w_out (fst (proxyToUpstream (sample_env no_upstream) sample_routes fresh_writer
                   (body_request plain_body)))
       = [Write (''Error forwarding request'' @ [newline])]"
proof -
  let ?E = "sample_env no_upstream"
  let ?r = "body_request plain_body"
  obtain req where br: "build_request ?E claude_route (r_Path ?r) plain_body = Inr (req, False)"
    using sample_build_request(3) [of no_upstream "r_Path ?r"] by blast
  have dn: "client_Do ?E req = None"
    by (simp add: sample_env_simps no_upstream_def)
  have fr: "w_sent fresh_writer = None \<and> w_out fresh_writer = [] \<and> w_fail_at fresh_writer = None"
    by (simp add: fresh_writer_simps)
  note T = upstream_failure_gives_502 [OF body_request_simps(1) sample_route_for(3) br dn,
             of fresh_writer]
  from T [THEN conjunct1] T [THEN conjunct2, rule_format, OF fr]
  show ?thesis by simp
qed

text \<open>
  Claim C7, as stated: for every upstream response the upstream headers are copied to the
  client. It fails for an upstream status outside 100..999, such as 099: \<open>WriteHeader\<close>
  at line 184 panics, the handler ends there, and neither a status line nor any header
  is sent.
\<close>

theorem bad_status_headers_counterexample:
  "w_sent (fst (proxyToUpstream (sample_env bad_status_upstream) sample_routes fresh_writer
                  (body_request plain_body))) = None
   \<and> w_out (fst (proxyToUpstream (sample_env bad_status_upstream) sample_routes fresh_writer
                  (body_request plain_body))) = []
   \<and> w_panicked (fst (proxyToUpstream (sample_env bad_status_upstream) sample_routes
                        fresh_writer (body_request plain_body)))"
proof -
  let ?resp = "(sample_response (newline_delimited three_lines))\<lparr>resp_StatusCode := 99\<rparr>"
  have "fst (proxyToUpstream (sample_env bad_status_upstream) sample_routes fresh_writer
               (body_request plain_body)) = relay fresh_writer ?resp False"
    by (rule sample_plain_relay) (simp add: bad_status_upstream_def)
  then show ?thesis
    using relay_panic [OF fresh_writer_simps(1) sample_status(4), of "newline_delimited three_lines" False]
    by (simp add: fresh_writer_simps)
qed

text \<open>
  Claim C7, amended. For an upstream response whose status is within 100..999 (and not
  informational: Go's client hands no 1xx status other than 101 to its caller), the
  status line goes out with the upstream's status and with the copied headers: under each canonical header name the values of the upstream headers of that
  name. For a streaming request the upstream headers whose name is \<open>Content-Length\<close> or
  \<open>Transfer-Encoding\<close> in any letter case are left out; for a non-streaming request none
  is left out. When the upstream header names are distinct and canonical, as net/http
  delivers them, every header other than those two goes out unchanged. The header names
  are ASCII and the writer is one nothing was sent to.
\<close>

theorem relay_copies_headers:
  assumes "r_Body r = Some body"
    and "route_for E modelConfigs body = Inr config"
    and "build_request E config (r_Path r) body = Inr (req, isStream)"
    and "client_Do E req = Some resp"
    and status: "valid_status (resp_StatusCode resp)" "\<not> informational (resp_StatusCode resp)"
    and fresh: "w_sent w = None" "w_Header w = Map.empty"
    and ascii: "\<forall>k\<in>set (map fst (resp_Header resp)). \<forall>c\<in>set k. (of_char c :: nat) < 128"
  shows "\<exists>hdrs.
           w_sent (fst (proxyToUpstream E modelConfigs w r)) = Some (resp_StatusCode resp, hdrs)
           \<and> (\<forall>k. hdrs k = copied_headers isStream (resp_Header resp) k)
           \<and> (distinct (map fst (resp_Header resp))
                \<and> (\<forall>key\<in>set (map fst (resp_Header resp)). CanonicalHeaderKey key = key)
              \<longrightarrow> (\<forall>k. hdrs k = (if isStream \<and> framing_header k then None
                                   else header_values (resp_Header resp) k)))"
proof -
  have "proxyToUpstream E modelConfigs w r = (relay w resp isStream, [req])"
    using assms(1-4) by (rule proxyToUpstream_relay)
  moreover have final: "final_status (resp_StatusCode resp)"
    using status by (auto simp: final_status_def valid_status_def informational_def)
  ultimately have "w_sent (fst (proxyToUpstream E modelConfigs w r))
        = Some (resp_StatusCode resp, copy_headers isStream (resp_Header resp) Map.empty)"
    using relay_sent [OF final fresh(1), of isStream] fresh(2) by simp
  moreover have "\<forall>k. copy_headers isStream (resp_Header resp) Map.empty k
        = copied_headers isStream (resp_Header resp) k"
    by (simp add: copy_headers_empty)
  moreover have "distinct (map fst (resp_Header resp))
                \<and> (\<forall>key\<in>set (map fst (resp_Header resp)). CanonicalHeaderKey key = key)
              \<longrightarrow> (\<forall>k. copy_headers isStream (resp_Header resp) Map.empty k
                         = (if isStream \<and> framing_header k then None
                            else header_values (resp_Header resp) k))"
    using copy_headers_fresh [of "resp_Header resp" isStream] by blast
  ultimately show ?thesis by blast
qed

theorem relay_copies_headers_witness:
  "(\<exists>hdrs. w_sent (fst (proxyToUpstream (sample_env mixed_case_upstream) sample_routes
                           fresh_writer (body_request stream_body))) = Some (200, hdrs)
      \<and> hdrs ''Content-Length'' = None \<and> hdrs ''Transfer-Encoding'' = None
      \<and> hdrs ''Content-Type'' = Some [''text/event-stream''])
   \<and> (\<exists>hdrs. w_sent (fst (proxyToUpstream (sample_env mixed_case_upstream) sample_routes
                           fresh_writer (body_request plain_body))) = Some (200, hdrs)
      \<and> hdrs ''Content-Length'' = Some [''24'']
      \<and> hdrs ''Transfer-Encoding'' = Some [''chunked'']
      \<and> hdrs ''Content-Type'' = Some [''text/event-stream''])
   \<and> (\<exists>hdrs. w_sent (fst (proxyToUpstream (sample_env (sample_upstream ''{}'')) sample_routes
                           fresh_writer (body_request plain_body))) = Some (200, hdrs)
      \<and> hdrs ''Content-Length'' = Some [''24'']
      \<and> hdrs ''Transfer-Encoding'' = Some [''chunked'']
      \<and> hdrs ''Content-Type'' = Some [''text/event-stream''])"
proof -
  let ?M = "sample_env mixed_case_upstream"
  let ?E = "sample_env (sample_upstream ''{}'')"
  let ?resp = "sample_response ''{}''"
  obtain r1 where b1:
    "build_request ?M claude_route (r_Path (body_request stream_body)) stream_body = Inr (r1, True)"
    using sample_build_request(1) by blast
  obtain r2 where b2:
    "build_request ?M claude_route (r_Path (body_request plain_body)) plain_body = Inr (r2, False)"
    using sample_build_request(3) by blast
  obtain r3 where b3:
    "build_request ?E claude_route (r_Path (body_request plain_body)) plain_body = Inr (r3, False)"
    using sample_build_request(3) by blast
  have up: "client_Do ?M r1 = Some mixed_case_response" "client_Do ?M r2 = Some mixed_case_response"
    "client_Do ?E r3 = Some ?resp"
    by (simp_all add: sample_env_simps mixed_case_upstream_def sample_upstream_def)
  have st: "resp_StatusCode mixed_case_response = 200" "resp_StatusCode ?resp = 200"
    by (simp_all add: mixed_case_response_def sample_response_def)
  note T1 = relay_copies_headers [OF body_request_simps(1) sample_route_for(1) b1 up(1)
      sample_status(6) sample_status(7) fresh_writer_simps(1) fresh_writer_simps(4)
      mixed_case_ascii]
  note T2 = relay_copies_headers [OF body_request_simps(1) sample_route_for(3) b2 up(2)
      sample_status(6) sample_status(7) fresh_writer_simps(1) fresh_writer_simps(4)
      mixed_case_ascii]
  note T3 = relay_copies_headers [OF body_request_simps(1) sample_route_for(3) b3 up(3)
      sample_status(2) sample_status(5) fresh_writer_simps(1) fresh_writer_simps(4)
      sample_response_keys(3)]
  from T1 obtain h1 where
    "w_sent (fst (proxyToUpstream ?M sample_routes fresh_writer (body_request stream_body)))
       = Some (200, h1)"
    "\<forall>k. h1 k = copied_headers True (resp_Header mixed_case_response) k"
    unfolding st by blast
  then have 1: "\<exists>hdrs. w_sent (fst (proxyToUpstream ?M sample_routes fresh_writer
                           (body_request stream_body))) = Some (200, hdrs)
      \<and> hdrs ''Content-Length'' = None \<and> hdrs ''Transfer-Encoding'' = None
      \<and> hdrs ''Content-Type'' = Some [''text/event-stream'']"
    by (simp add: mixed_case_copied)
  from T2 obtain h2 where
    "w_sent (fst (proxyToUpstream ?M sample_routes fresh_writer (body_request plain_body)))
       = Some (200, h2)"
    "\<forall>k. h2 k = copied_headers False (resp_Header mixed_case_response) k"
    unfolding st by blast
  then have 2: "\<exists>hdrs. w_sent (fst (proxyToUpstream ?M sample_routes fresh_writer
                           (body_request plain_body))) = Some (200, hdrs)
      \<and> hdrs ''Content-Length'' = Some [''24'']
      \<and> hdrs ''Transfer-Encoding'' = Some [''chunked'']
      \<and> hdrs ''Content-Type'' = Some [''text/event-stream'']"
    by (simp add: mixed_case_copied)
  from T3 sample_response_keys(1,2) [of "''{}''"] obtain h3 where
    "w_sent (fst (proxyToUpstream ?E sample_routes fresh_writer (body_request plain_body)))
       = Some (200, h3)"
    "\<forall>k. h3 k = (if False \<and> framing_header k then None
                 else header_values (resp_Header ?resp) k)"
    unfolding st by blast
  then have 3: "\<exists>hdrs. w_sent (fst (proxyToUpstream ?E sample_routes fresh_writer
                           (body_request plain_body))) = Some (200, hdrs)
      \<and> hdrs ''Content-Length'' = Some [''24'']
      \<and> hdrs ''Transfer-Encoding'' = Some [''chunked'']
      \<and> hdrs ''Content-Type'' = Some [''text/event-stream'']"
    by (simp add: sample_header_values)
  from 1 2 3 show ?thesis by blast
qed

text \<open>
  Claim C4, as stated: every streaming body of newline-delimited lines is relayed line by
  line, each line followed by one newline and a flush. It fails in five ways, one for
  each conjunct below:
  \<^item> a line of \<open>10<<20\<close> bytes does not fit the scanner's buffer: the scan ends with
    \<open>ErrTooLong\<close> and nothing is written;
  \<^item> a line that ends in a carriage return is written without it;
  \<^item> a writer without \<open>http.Flusher\<close> gets the "Streaming not supported" message and no
    line;
  \<^item> after a write that fails the loop returns: of three lines a client that is gone after
    one write gets the first only;
  \<^item> an upstream status outside 100..999 makes \<open>WriteHeader\<close> panic before any line.
\<close>

theorem stream_relay_counterexample:
  "w_out (fst (proxyToUpstream (sample_env long_line_upstream) sample_routes fresh_writer
                (body_request stream_body))) = []
   \<and> w_out (fst (proxyToUpstream
                   (sample_env (sample_upstream (newline_delimited [''data: b'' @ [carriage_return]])))
                   sample_routes fresh_writer (body_request stream_body)))
       = [Write (''data: b'' @ [newline]), Flush]
   \<and> w_out (fst (proxyToUpstream (sample_env (sample_upstream (newline_delimited three_lines)))
                   sample_routes no_flush_writer (body_request stream_body)))
       = [Write (''Streaming not supported'' @ [newline])]
   \<and> w_out (fst (proxyToUpstream (sample_env (sample_upstream (newline_delimited three_lines)))
                   sample_routes gone_writer (body_request stream_body)))
       = [Write (''data: a'' @ [newline]), Flush]
   \<and> w_out (fst (proxyToUpstream (sample_env bad_status_upstream) sample_routes fresh_writer
                   (body_request stream_body))) = []
   \<and> w_panicked (fst (proxyToUpstream (sample_env bad_status_upstream) sample_routes
                        fresh_writer (body_request stream_body)))"
proof -
  let ?three = "sample_response (newline_delimited three_lines)"
  let ?cr = "sample_response (newline_delimited [''data: b'' @ [carriage_return]])"
  let ?long = "sample_response (newline_delimited [long_line])"
  let ?bad = "?three\<lparr>resp_StatusCode := 99\<rparr>"
  have "fst (proxyToUpstream (sample_env long_line_upstream) sample_routes fresh_writer
               (body_request stream_body)) = relay fresh_writer ?long True"
    by (rule sample_stream_relay) (simp add: long_line_upstream_def)
  moreover have "resp_Body ?long = long_line @ newline # []"
    by (simp add: sample_response_def newline_delimited_def)
  then have "Scanner_lines (resp_Body ?long) = []"
    using long_line_facts by (simp add: Scanner_lines_too_long)
  then have "w_out (relay fresh_writer ?long True) = []"
    using relay_stream_out [OF sample_status(2), of fresh_writer "newline_delimited [long_line]"]
    by (simp add: fresh_writer_simps)
  ultimately have 1: "w_out (fst (proxyToUpstream (sample_env long_line_upstream) sample_routes
                          fresh_writer (body_request stream_body))) = []"
    by simp
  have "fst (proxyToUpstream
               (sample_env (sample_upstream (newline_delimited [''data: b'' @ [carriage_return]])))
               sample_routes fresh_writer (body_request stream_body)) = relay fresh_writer ?cr True"
    by (rule sample_stream_relay) (simp add: sample_upstream_def)
  moreover have "Scanner_lines (newline_delimited [''data: b'' @ [carriage_return]])
                   = map dropCR [''data: b'' @ [carriage_return]]"
    by (rule Scanner_lines_delimited)
       (simp add: newline_def carriage_return_def maxTokenSize_def)
  then have "Scanner_lines (resp_Body ?cr) = [''data: b'']"
    by (simp add: sample_response_def dropCR_def)
  then have "w_out (relay fresh_writer ?cr True) = [Write (''data: b'' @ [newline]), Flush]"
    using relay_stream_out [OF sample_status(2), of fresh_writer
            "newline_delimited [''data: b'' @ [carriage_return]]"]
    by (simp add: fresh_writer_simps)
  ultimately have 2: "w_out (fst (proxyToUpstream
                   (sample_env (sample_upstream (newline_delimited [''data: b'' @ [carriage_return]])))
                   sample_routes fresh_writer (body_request stream_body)))
       = [Write (''data: b'' @ [newline]), Flush]"
    by simp
  have r3: "fst (proxyToUpstream (sample_env (sample_upstream (newline_delimited three_lines)))
               sample_routes w (body_request stream_body)) = relay w ?three True" for w
    by (rule sample_stream_relay) (simp add: sample_upstream_def)
  have 3: "w_out (fst (proxyToUpstream (sample_env (sample_upstream (newline_delimited three_lines)))
                   sample_routes no_flush_writer (body_request stream_body)))
       = [Write (''Streaming not supported'' @ [newline])]"
    unfolding r3
    using relay_no_flusher [OF sample_status(1), of no_flush_writer "newline_delimited three_lines"]
    by (simp add: no_flush_writer_def fresh_writer_def)
  have 4: "w_out (fst (proxyToUpstream (sample_env (sample_upstream (newline_delimited three_lines)))
                   sample_routes gone_writer (body_request stream_body)))
       = [Write (''data: a'' @ [newline]), Flush]"
    unfolding r3 by (rule relay_gone_writer)
  have "fst (proxyToUpstream (sample_env bad_status_upstream) sample_routes fresh_writer
               (body_request stream_body)) = relay fresh_writer ?bad True"
    by (rule sample_stream_relay) (simp add: bad_status_upstream_def)
  then have 5: "w_out (fst (proxyToUpstream (sample_env bad_status_upstream) sample_routes
                     fresh_writer (body_request stream_body))) = []
      \<and> w_panicked (fst (proxyToUpstream (sample_env bad_status_upstream) sample_routes
                        fresh_writer (body_request stream_body)))"
    using relay_panic [OF fresh_writer_simps(1) sample_status(4), of "newline_delimited three_lines" True]
    by (simp add: fresh_writer_simps)
  from 1 2 3 4 5 show ?thesis by blast
qed

text \<open>
  Claim C4, amended. For a streaming body of newline-delimited lines, each shorter than
  \<open>10<<20\<close> bytes, an upstream status within 100..999, and a writer that supports
  flushing and accepts every write, the relay writes the lines in the order of the body,
  each as one write of the line (without a trailing carriage return) and one newline,
  each write followed by a flush.
\<close>

theorem stream_relay_line_by_line:
  assumes "r_Body r = Some body"
    and "route_for E modelConfigs body = Inr config"
    and "build_request E config (r_Path r) body = Inr (req, True)"
    and "client_Do E req = Some resp"
    and lines: "resp_Body resp = newline_delimited ls"
      "\<forall>l\<in>set ls. newline \<notin> set l \<and> length l < maxTokenSize"
    and status: "valid_status (resp_StatusCode resp)"
    and client: "w_flusher w" "w_fail_at w = None"
  shows "w_out (fst (proxyToUpstream E modelConfigs w r))
           = w_out w @ concat (map (\<lambda>l. [Write (dropCR l @ [newline]), Flush]) ls)"
proof -
  have "proxyToUpstream E modelConfigs w r = (relay w resp True, [req])"
    using assms(1-4) by (rule proxyToUpstream_relay)
  moreover have "Scanner_lines (resp_Body resp) = map dropCR ls"
    unfolding lines(1) using lines(2) by (rule Scanner_lines_delimited)
  ultimately show ?thesis
    using relay_stream_out [OF status client] by (simp add: comp_def)
qed

theorem stream_relay_line_by_line_witness:
  "w_out (fst (proxyToUpstream (sample_env (sample_upstream (newline_delimited three_lines)))
                 sample_routes fresh_writer (body_request stream_body)))
     = [Write (''data: a'' @ [newline]), Flush,
        Write (''data: b'' @ [newline]), Flush,
        Write (''data: c'' @ [newline]), Flush]"
proof -
  let ?resp = "sample_response (newline_delimited three_lines)"
  let ?E = "sample_env (sample_upstream (newline_delimited three_lines))"
  let ?r = "body_request stream_body"
  obtain req where br: "build_request ?E claude_route (r_Path ?r) stream_body = Inr (req, True)"
    using sample_build_request(1) by blast
  have up: "client_Do ?E req = Some ?resp"
    by (simp add: sample_env_simps sample_upstream_def)
  have b: "resp_Body ?resp = newline_delimited three_lines"
    by (simp add: sample_response_def)
  have l: "\<forall>l\<in>set three_lines. newline \<notin> set l \<and> length l < maxTokenSize"
    by (simp add: three_lines_def newline_def carriage_return_def maxTokenSize_def)
  have d: "map dropCR three_lines = [''data: a'', ''data: b'', ''data: c'']"
    by (simp add: three_lines_def dropCR_def carriage_return_def)
  have "w_out (fst (proxyToUpstream ?E sample_routes fresh_writer ?r))
          = w_out fresh_writer
            @ concat (map (\<lambda>l. [Write (dropCR l @ [newline]), Flush]) three_lines)"
    by (rule stream_relay_line_by_line [OF body_request_simps(1) sample_route_for(1) br up b l
          sample_status(2) fresh_writer_simps(5) fresh_writer_simps(3)])
  also have "\<dots> = concat (map (\<lambda>l. [Write (l @ [newline]), Flush]) (map dropCR three_lines))"
    by (simp add: fresh_writer_simps comp_def)
  finally show ?thesis
    unfolding d by simp
qed

end
